theory Spec2Isabelle
  imports Main "HOL-Library.AList" "HOL-Library.Word"
begin

section \<open>JavaScript exceptions as values\<close>

text \<open>
  A function of the backend either returns a value or throws. Both outcomes are values of
  the sum type \<open>exn + 'a\<close>: \<open>Inl e\<close> is a thrown exception (for an \<open>async\<close> function, a
  rejected promise), \<open>Inr v\<close> is a normal return. All times are integers: milliseconds since
  the epoch for \<open>Date\<close> values, \<open>Date.now()\<close> and SQL timestamps, and seconds for the
  timestamp of a signed request; the conversions between JavaScript dates and SQL
  timestamps are exact. Request bodies have the types their TypeScript interfaces declare,
  and a string is the list of its bytes.
\<close>

datatype exn =
    AddressParseError
  | ResolverError
  | RangeError
  | TypeError
  | CellParseError
  | NaclError
  | DbError

text \<open>\<open>try { body } catch (e) { return handler }\<close> around a whole function body.\<close>

definition try_catch :: "exn + 'a \<Rightarrow> 'a \<Rightarrow> exn + 'a" where
  "try_catch body handler = (case body of Inl e \<Rightarrow> Inr handler | Inr v \<Rightarrow> Inr v)"

section \<open>The in-memory session registry (middleware)\<close>

record SessionData =
  sessionId :: string
  userAddress :: string
  createdAt :: int
  expiresAt :: int
  signatureVerified :: bool

text \<open>
  \<open>activeSessions\<close> and \<open>userSessions\<close> are JavaScript \<open>Map\<close>s. A \<open>Map\<close> keeps its entries
  in insertion order, \<open>set\<close> overwrites the value of a key that is present and appends
  otherwise, \<open>delete\<close> removes the key: association lists with \<open>AList.update\<close>,
  \<open>AList.delete\<close> and \<open>map_of\<close>.
\<close>

record session_store =
  activeSessions :: "(string \<times> SessionData) list"
  userSessions :: "(string \<times> string) list"

definition empty_store :: session_store where
  "empty_store = \<lparr>activeSessions = [], userSessions = []\<rparr>"

definition addSession :: "string \<Rightarrow> SessionData \<Rightarrow> session_store \<Rightarrow> session_store" where
  "addSession sid sessionData st =
     \<lparr>activeSessions = AList.update sid sessionData (activeSessions st),
      userSessions = AList.update (userAddress sessionData) sid (userSessions st)\<rparr>"

definition getSession :: "string \<Rightarrow> session_store \<Rightarrow> SessionData option" where
  "getSession sid st = map_of (activeSessions st) sid"

definition getUserSession :: "string \<Rightarrow> session_store \<Rightarrow> string option" where
  "getUserSession addr st = map_of (userSessions st) addr"

text \<open>The two deletions every removal path performs: the id, and the owner's entry.\<close>

definition drop_session :: "string \<Rightarrow> SessionData \<Rightarrow> session_store \<Rightarrow> session_store" where
  "drop_session sid session st =
     \<lparr>activeSessions = AList.delete sid (activeSessions st),
      userSessions = AList.delete (userAddress session) (userSessions st)\<rparr>"

definition removeSession :: "string \<Rightarrow> session_store \<Rightarrow> session_store" where
  "removeSession sid st =
     (case getSession sid st of
        None \<Rightarrow> st
      | Some session \<Rightarrow> drop_session sid session st)"

text \<open>
  The body of the \<open>setInterval\<close> callback (every 5 minutes). The loop visits the entries of
  \<open>activeSessions\<close> in order; the only entry it deletes from that map is the one it is
  visiting, so the entries still to come are those of the list it started with.
\<close>

fun cleanup_loop :: "int \<Rightarrow> (string \<times> SessionData) list \<Rightarrow> session_store \<Rightarrow> session_store" where
  "cleanup_loop now [] st = st"
| "cleanup_loop now ((sid, session) # entries) st =
     cleanup_loop now entries
       (if now > expiresAt session then drop_session sid session st else st)"

definition session_cleanup :: "int \<Rightarrow> session_store \<Rightarrow> session_store" where
  "session_cleanup now st = cleanup_loop now (activeSessions st) st"

text \<open>
  \<open>checkSession\<close>: the \<open>Authorization\<close> header is absent (\<open>None\<close>) or a string. The session
  id is \<open>authHeader.split(' ')[1]\<close>: after the prefix \<open>Bearer \<close>, the text up to the next
  space. Every failure is a 401 response; success hands the session to the route.
\<close>

datatype session_error = MissingToken | InvalidSession | SessionExpired

definition bearer_token :: "string \<Rightarrow> string" where
  "bearer_token authHeader = takeWhile (\<lambda>c. c \<noteq> CHR '' '') (drop 7 authHeader)"

definition checkSession ::
  "int \<Rightarrow> string option \<Rightarrow> session_store \<Rightarrow> (session_error + SessionData) \<times> session_store" where
  "checkSession now authHeader st =
     (case authHeader of
        None \<Rightarrow> (Inl MissingToken, st)
      | Some h \<Rightarrow>
          if take 7 h \<noteq> ''Bearer '' then (Inl MissingToken, st)
          else
            (case map_of (activeSessions st) (bearer_token h) of
               None \<Rightarrow> (Inl InvalidSession, st)
             | Some session \<Rightarrow>
                 if now > expiresAt session
                 then (Inl SessionExpired, drop_session (bearer_token h) session st)
                 else (Inr session, st)))"


text \<open>A session that expired at 3600000, registered and not yet swept.\<close>

definition stale_session :: SessionData where
  "stale_session =
     \<lparr>sessionId = ''tok1'', userAddress = ''EQ_alice'', createdAt = 0, expiresAt = 3600000,
      signatureVerified = True\<rparr>"

definition stale_store :: session_store where
  "stale_store = addSession ''tok1'' stale_session empty_store"

section \<open>Addresses and byte buffers\<close>

type_synonym byte = "8 word"

record Address =
  workChain :: int
  hash :: "byte list"

text \<open>
  \<open>Address.parse\<close> and \<open>Address.toString\<close> belong to the library \<open>@ton/core\<close>: parsing
  throws on a malformed string (\<open>None\<close>), \<open>toString\<close> gives the canonical form.
\<close>

record address_lib =
  Address_parse :: "string \<Rightarrow> Address option"
  Address_toString :: "Address \<Rightarrow> string"

definition normalize :: "address_lib \<Rightarrow> string \<Rightarrow> string option" where
  "normalize al s = map_option (Address_toString al) (Address_parse al s)"

text \<open>
  Node's \<open>Buffer\<close> writers: big-endian, and a \<open>RangeError\<close> when the value does not fit.
\<close>

definition be_bytes :: "nat \<Rightarrow> nat \<Rightarrow> byte list" where
  "be_bytes k n = map (\<lambda>i. of_nat (n div 256 ^ (k - 1 - i))) [0..<k]"

definition writeInt32BE :: "int \<Rightarrow> exn + byte list" where
  "writeInt32BE v =
     (if - (2 ^ 31) \<le> v \<and> v < 2 ^ 31 then Inr (be_bytes 4 (nat (v mod 2 ^ 32)))
      else Inl RangeError)"

definition writeUInt32BE :: "nat \<Rightarrow> exn + byte list" where
  "writeUInt32BE v = (if v < 2 ^ 32 then Inr (be_bytes 4 v) else Inl RangeError)"

definition writeBigUInt64BE :: "int \<Rightarrow> exn + byte list" where
  "writeBigUInt64BE v =
     (if 0 \<le> v \<and> v < 2 ^ 64 then Inr (be_bytes 8 (nat v)) else Inl RangeError)"

definition utf8 :: "string \<Rightarrow> byte list" where
  "utf8 s = map (\<lambda>c. of_nat (of_char c)) s"

section \<open>SignDataService\<close>

datatype SignDataPayload =
    PayloadText string
  | PayloadBinary string
  | PayloadCell string string

record CheckSignDataRequestDto =
  signature :: string
  address :: string
  timestamp :: int
  domain :: string
  payload :: SignDataPayload
  public_key :: string
  walletStateInit :: string

definition allowedDomains :: "string list" where
  "allowedDomains =
     [''pikromachess-tma-patterns-47ab.twc1.net'', ''localhost:5173'', ''localhost:3000'']"

definition validAuthTime :: int where
  "validAuthTime = 15 * 60"

text \<open>
  The primitives the service imports: \<open>sha256\<close> (\<open>@ton/crypto\<close>), base64 decoding
  (\<open>Buffer.from(s, "base64")\<close>, which never throws), \<open>nacl.sign.detached.verify\<close>
  (which throws on a signature or key of the wrong size), and the cell part of
  \<open>createCellHash\<close>: \<open>Cell.fromBase64\<close>, the CRC-32 of the schema and the hash of the cell
  built from prefix, schema hash, timestamp, address, encoded domain and payload cell.
  A payload of type cell has no \<open>bytes\<close> field, so \<open>createTextBinaryHash\<close> would throw a
  \<open>TypeError\<close> on it; \<open>checkSignData\<close> sends such a payload to \<open>createCellHash\<close>.
\<close>

record crypto_lib =
  sha256 :: "byte list \<Rightarrow> byte list"
  base64_decode :: "string \<Rightarrow> byte list"
  nacl_verify :: "byte list \<Rightarrow> byte list \<Rightarrow> byte list \<Rightarrow> exn + bool"
  cell_message_hash :: "string \<Rightarrow> string \<Rightarrow> int \<Rightarrow> Address \<Rightarrow> byte list \<Rightarrow> exn + byte list"

fun split_on :: "char \<Rightarrow> string \<Rightarrow> string list" where
  "split_on c [] = [[]]"
| "split_on c (x # xs) =
     (if x = c then [] # split_on c xs
      else (case split_on c xs of
              [] \<Rightarrow> [[x]]
            | p # ps \<Rightarrow> (x # p) # ps))"

definition encodeDomainDnsLike :: "string \<Rightarrow> byte list" where
  "encodeDomainDnsLike d = concat (map (\<lambda>part. utf8 part @ [0]) (rev (split_on CHR ''.'' d)))"

definition createCellHash ::
  "crypto_lib \<Rightarrow> string \<Rightarrow> string \<Rightarrow> Address \<Rightarrow> string \<Rightarrow> int \<Rightarrow> exn + byte list" where
  "createCellHash cl cell schema parsedAddr d ts =
     cell_message_hash cl cell schema ts parsedAddr (encodeDomainDnsLike d)"

definition createTextBinaryHash ::
  "crypto_lib \<Rightarrow> SignDataPayload \<Rightarrow> Address \<Rightarrow> string \<Rightarrow> int \<Rightarrow> exn + byte list" where
  "createTextBinaryHash cl p parsedAddr d ts =
     (case writeInt32BE (workChain parsedAddr) of
        Inl e \<Rightarrow> Inl e
      | Inr wcBuffer \<Rightarrow>
     (case writeUInt32BE (length (utf8 d)) of
        Inl e \<Rightarrow> Inl e
      | Inr domainLenBuffer \<Rightarrow>
     (case writeBigUInt64BE ts of
        Inl e \<Rightarrow> Inl e
      | Inr tsBuffer \<Rightarrow>
     (case (case p of
              PayloadText text \<Rightarrow> Inr (utf8 ''txt'', utf8 text)
            | PayloadBinary bytes \<Rightarrow> Inr (utf8 ''bin'', base64_decode cl bytes)
            | PayloadCell _ _ \<Rightarrow> Inl TypeError) of
        Inl e \<Rightarrow> Inl e
      | Inr (payloadPrefix, payloadBuffer) \<Rightarrow>
     (case writeUInt32BE (length payloadBuffer) of
        Inl e \<Rightarrow> Inl e
      | Inr payloadLenBuffer \<Rightarrow>
          Inr (sha256 cl
            ([0xff, 0xff] @ utf8 ''ton-connect/sign-data/'' @ wcBuffer @ hash parsedAddr @
             domainLenBuffer @ utf8 d @ tsBuffer @ payloadPrefix @ payloadLenBuffer @
             payloadBuffer)))))))"

text \<open>
  The body of the \<open>try\<close> block of \<open>checkSignData\<close>. \<open>now_ms\<close> is \<open>Date.now()\<close>; the resolver
  \<open>getWalletPublicKey\<close> is the caller's, it may reject (\<open>Inl\<close>) or resolve to \<open>null\<close>
  (\<open>None\<close>).
\<close>

definition checkSignData_try ::
  "address_lib \<Rightarrow> crypto_lib \<Rightarrow> (string \<Rightarrow> exn + byte list option) \<Rightarrow> int \<Rightarrow>
   CheckSignDataRequestDto \<Rightarrow> exn + bool" where
  "checkSignData_try al cl getWalletPublicKey now_ms p =
     (if domain p \<notin> set allowedDomains then Inr False
      else if now_ms div 1000 - validAuthTime > timestamp p then Inr False
      else
        (case Address_parse al (address p) of
           None \<Rightarrow> Inl AddressParseError
         | Some parsedAddr \<Rightarrow>
             (case getWalletPublicKey (address p) of
                Inl e \<Rightarrow> Inl e
              | Inr None \<Rightarrow> Inr False
              | Inr (Some publicKey) \<Rightarrow>
                  (case (case payload p of
                           PayloadCell cell schema \<Rightarrow>
                             createCellHash cl cell schema parsedAddr (domain p) (timestamp p)
                         | _ \<Rightarrow>
                             createTextBinaryHash cl (payload p) parsedAddr (domain p)
                               (timestamp p)) of
                     Inl e \<Rightarrow> Inl e
                   | Inr finalHash \<Rightarrow>
                       nacl_verify cl finalHash (base64_decode cl (signature p)) publicKey))))"

definition checkSignData ::
  "address_lib \<Rightarrow> crypto_lib \<Rightarrow> (string \<Rightarrow> exn + byte list option) \<Rightarrow> int \<Rightarrow>
   CheckSignDataRequestDto \<Rightarrow> exn + bool" where
  "checkSignData al cl getWalletPublicKey now_ms p =
     try_catch (checkSignData_try al cl getWalletPublicKey now_ms p) False"

section \<open>The relational store\<close>

text \<open>
  Each table is the list of its rows, with the columns the application reads or writes. SQL
  \<open>TIMESTAMP\<close> values are milliseconds, \<open>NOW()\<close> is a parameter of every operation,
  \<open>INTEGER\<close> columns are 32-bit: a statement that would store a larger value raises.
\<close>

record session_listen_row =
  sl_user_address :: string
  sl_nft_address :: string
  sl_collection_address :: string
  sl_session_id :: string
  sl_count :: int
  sl_first_recorded :: int
  sl_last_recorded :: int

record listen_row =
  l_nft_address :: string
  l_collection_address :: string
  l_count :: int
  l_last_updated :: int

record nft_row =
  n_address :: string
  n_collection_address :: string
  n_first_listen :: int
  n_updated_at :: int

record api_key_row =
  k_key :: string
  k_address :: string
  k_created_at :: int
  k_expires_at :: int

record user_block_row =
  b_user_address :: string
  b_reason :: string
  b_blocked_until :: "int option"
  b_is_active :: bool

datatype severity = Low | Medium | High | Critical

text \<open>
  A row of \<open>suspicious_activities\<close>: \<open>sa_observed\<close> is the number that the description and
  the metadata of the row carry, \<open>sa_limit\<close> the limit in the metadata.
\<close>

record suspicious_activity_row =
  sa_user_address :: string
  sa_activity_type :: string
  sa_observed :: int
  sa_limit :: int
  sa_severity :: severity
  sa_detected_at :: int

record listening_session_row =
  ls_session_id :: string
  ls_user_address :: string
  ls_created_at :: int
  ls_expires_at :: int

record database =
  session_listens :: "session_listen_row list"
  listens :: "listen_row list"
  nfts :: "nft_row list"
  api_keys :: "api_key_row list"
  user_blocks :: "user_block_row list"
  suspicious_activities :: "suspicious_activity_row list"
  listening_sessions :: "listening_session_row list"

definition empty_database :: database where
  "empty_database =
     \<lparr>session_listens = [], listens = [], nfts = [], api_keys = [], user_blocks = [],
      suspicious_activities = [], listening_sessions = []\<rparr>"

definition int4_max :: int where
  "int4_max = 2147483647"

section \<open>Route /api/session/create\<close>

text \<open>
  The request body. A field that the JSON body lacks is the falsy value of its type here
  (the empty string, 0, \<open>None\<close>), which the handler treats like the missing field.
\<close>

record SignDataRequest =
  rq_signature :: string
  rq_address :: string
  rq_timestamp :: int
  rq_domain :: string
  rq_payload :: "SignDataPayload option"
  rq_public_key :: string
  rq_walletStateInit :: string

text \<open>
  What the handler takes from its module: the consent text the wallet must have signed
  (\<open>expectedText\<close>, a Cyrillic string constant of the handler), \<open>jwt.sign\<close> with the backend
  secret applied to address, domain, timestamp and the issue time, and the route's
  \<open>getWalletPublicKey\<close>, which catches every error and returns the key or \<open>null\<close>.
\<close>

record route_cfg =
  expectedText :: string
  jwt_sign :: "string \<Rightarrow> string \<Rightarrow> int \<Rightarrow> int \<Rightarrow> string"
  getWalletPublicKey :: "string \<Rightarrow> byte list option"

datatype create_error =
    IncompleteData
  | WrongPayloadType
  | StaleSignature
  | WrongText
  | BadAddressFormat
  | BadSignature
  | CreateServerError

text \<open>
  Lines 183 to 195 of the handler: the session id registered for the address, when it is a
  non-empty string, its record exists and \<open>new Date() < existingSession.expiresAt\<close>.
\<close>

definition existing_session :: "int \<Rightarrow> string \<Rightarrow> session_store \<Rightarrow> (string \<times> SessionData) option" where
  "existing_session now normalizedAddress st =
     (case getUserSession normalizedAddress st of
        None \<Rightarrow> None
      | Some existingSessionId \<Rightarrow>
          if existingSessionId = [] then None
          else
            (case getSession existingSessionId st of
               None \<Rightarrow> None
             | Some existingSession \<Rightarrow>
                 if now < expiresAt existingSession
                 then Some (existingSessionId, existingSession)
                 else None))"

text \<open>
  The monitoring row: the \<open>INSERT\<close> raises when the store is down (\<open>db_down\<close>) or the
  primary key \<open>session_id\<close> is taken; the handler logs the error and goes on.
\<close>

definition insert_listening_session :: "bool \<Rightarrow> listening_session_row \<Rightarrow> database \<Rightarrow> database" where
  "insert_listening_session db_down row db =
     (if db_down \<or> ls_session_id row \<in> set (map ls_session_id (listening_sessions db)) then db
      else db\<lparr>listening_sessions := listening_sessions db @ [row]\<rparr>)"

text \<open>
  The handler; \<open>now\<close> is the clock in milliseconds. The response is an error (status 400,
  or 500 for \<open>CreateServerError\<close>) or the pair of session id and expiry.
\<close>

definition session_create ::
  "address_lib \<Rightarrow> crypto_lib \<Rightarrow> route_cfg \<Rightarrow> bool \<Rightarrow> int \<Rightarrow> SignDataRequest \<Rightarrow>
   session_store \<times> database \<Rightarrow> (create_error + string \<times> int) \<times> session_store \<times> database" where
  "session_create al cl cfg db_down now signData s =
     (if rq_signature signData = [] \<or> rq_address signData = [] \<or> rq_timestamp signData = 0 \<or>
         rq_domain signData = [] \<or> rq_payload signData = None
      then (Inl IncompleteData, s)
      else
        (case rq_payload signData of
           Some (PayloadText text) \<Rightarrow>
             if text = [] then (Inl WrongPayloadType, s)
             else if now div 1000 - rq_timestamp signData > 5 * 60 then (Inl StaleSignature, s)
             else if text \<noteq> expectedText cfg then (Inl WrongText, s)
             else
               (case normalize al (rq_address signData) of
                  None \<Rightarrow> (Inl BadAddressFormat, s)
                | Some normalizedAddress \<Rightarrow>
                    (case existing_session now normalizedAddress (fst s) of
                       Some (existingSessionId, existingSession) \<Rightarrow>
                         (Inr (existingSessionId, expiresAt existingSession), s)
                     | None \<Rightarrow>
                         (case checkSignData al cl (\<lambda>a. Inr (getWalletPublicKey cfg a)) now
                                 \<lparr>signature = rq_signature signData,
                                  address = normalizedAddress,
                                  timestamp = rq_timestamp signData,
                                  domain = rq_domain signData,
                                  payload = PayloadText text,
                                  public_key = rq_public_key signData,
                                  walletStateInit = rq_walletStateInit signData\<rparr> of
                            Inl e \<Rightarrow> (Inl CreateServerError, s)
                          | Inr False \<Rightarrow> (Inl BadSignature, s)
                          | Inr True \<Rightarrow>
                              (let sid = jwt_sign cfg normalizedAddress (rq_domain signData)
                                           (rq_timestamp signData) now;
                                   sessionData =
                                     \<lparr>sessionId = sid, userAddress = normalizedAddress,
                                      createdAt = now, expiresAt = now + 60 * 60 * 1000,
                                      signatureVerified = True\<rparr>
                               in (Inr (sid, now + 60 * 60 * 1000),
                                   addSession sid sessionData (fst s),
                                   insert_listening_session db_down
                                     \<lparr>ls_session_id = sid, ls_user_address = normalizedAddress,
                                      ls_created_at = now, ls_expires_at = now + 60 * 60 * 1000\<rparr>
                                     (snd s))))))
         | _ \<Rightarrow> (Inl WrongPayloadType, s)))"

text \<open>
  A concrete setting for examples: an address library that knows one account, primitives
  under which no signature verifies (\<open>rejecting_crypto\<close>) or every signature verifies
  (\<open>accepting_crypto\<close>), and a request for that account.
\<close>

definition demo_address_lib :: address_lib where
  "demo_address_lib =
     \<lparr>Address_parse = (\<lambda>s. if s = ''0:alice'' \<or> s = ''EQ_alice''
                             then Some \<lparr>workChain = 0, hash = []\<rparr> else None),
      Address_toString = (\<lambda>a. ''EQ_alice'')\<rparr>"

definition rejecting_crypto :: crypto_lib where
  "rejecting_crypto =
     \<lparr>sha256 = (\<lambda>m. m), base64_decode = utf8, nacl_verify = (\<lambda>m sg k. Inr False),
      cell_message_hash = (\<lambda>c sc t a d. Inr d)\<rparr>"

definition accepting_crypto :: crypto_lib where
  "accepting_crypto =
     \<lparr>sha256 = (\<lambda>m. m), base64_decode = utf8, nacl_verify = (\<lambda>m sg k. Inr True),
      cell_message_hash = (\<lambda>c sc t a d. Inr d)\<rparr>"

definition demo_cfg :: route_cfg where
  "demo_cfg =
     \<lparr>expectedText = ''consent'',
      jwt_sign = (\<lambda>a d t iat. ''jwt.'' @ a),
      getWalletPublicKey = (\<lambda>a. Some [])\<rparr>"

definition demo_request :: SignDataRequest where
  "demo_request =
     \<lparr>rq_signature = ''c2ln'', rq_address = ''0:alice'', rq_timestamp = 900,
      rq_domain = ''localhost:3000'', rq_payload = Some (PayloadText ''consent''),
      rq_public_key = '''', rq_walletStateInit = ''''\<rparr>"

definition demo_dto :: CheckSignDataRequestDto where
  "demo_dto =
     \<lparr>signature = ''c2ln'', address = ''EQ_alice'', timestamp = 900,
      domain = ''localhost:3000'', payload = PayloadText ''consent'', public_key = [],
      walletStateInit = []\<rparr>"

text \<open>
  A renewal. The account's session \<open>tok1\<close> expired at 3600000 and is still registered when
  the wallet signs a new request; the handler answers at 3700000 with the session
  \<open>jwt.A\<close>, which lives until 7300000. A token carries its issue time, so a token signed
  at 4000000 or later is another string, \<open>jwt.B\<close>.
\<close>

definition stamped_cfg :: route_cfg where
  "stamped_cfg =
     demo_cfg\<lparr>jwt_sign := (\<lambda>a d t iat. if iat < 4000000 then ''jwt.A'' else ''jwt.B'')\<rparr>"

definition renewal_request :: "int \<Rightarrow> SignDataRequest" where
  "renewal_request ts = demo_request\<lparr>rq_timestamp := ts\<rparr>"

definition session_A :: SessionData where
  "session_A =
     \<lparr>sessionId = ''jwt.A'', userAddress = ''EQ_alice'', createdAt = 3700000,
      expiresAt = 7300000, signatureVerified = True\<rparr>"

definition session_B :: SessionData where
  "session_B =
     \<lparr>sessionId = ''jwt.B'', userAddress = ''EQ_alice'', createdAt = 4000000,
      expiresAt = 7600000, signatureVerified = True\<rparr>"

definition renewed_store :: session_store where
  "renewed_store = addSession ''jwt.A'' session_A stale_store"

definition renewed_db :: database where
  "renewed_db =
     empty_database
       \<lparr>listening_sessions :=
          [\<lparr>ls_session_id = ''jwt.A'', ls_user_address = ''EQ_alice'',
            ls_created_at = 3700000, ls_expires_at = 7300000\<rparr>]\<rparr>"

definition twice_renewed_db :: database where
  "twice_renewed_db =
     empty_database
       \<lparr>listening_sessions :=
          [\<lparr>ls_session_id = ''jwt.A'', ls_user_address = ''EQ_alice'',
            ls_created_at = 3700000, ls_expires_at = 7300000\<rparr>,
           \<lparr>ls_session_id = ''jwt.B'', ls_user_address = ''EQ_alice'',
            ls_created_at = 4000000, ls_expires_at = 7600000\<rparr>]\<rparr>"

section \<open>Block check and suspicious-activity detection (middleware)\<close>

text \<open>
  Every statement sent to the store may raise (the store is down, a constraint is violated).
  Which ones do is a parameter of each operation: a predicate on its statements.
\<close>

datatype det_step = DBlockQuery | DConnect | DHourlyQuery | DDailyQuery | DSameNftQuery | DLogInsert

record block_check =
  isBlocked :: bool
  block_reason :: "string option"

definition active_blocks :: "int \<Rightarrow> database \<Rightarrow> string \<Rightarrow> user_block_row list" where
  "active_blocks now db user =
     filter (\<lambda>b. b_user_address b = user \<and> b_is_active b \<and>
                 (case b_blocked_until b of None \<Rightarrow> True | Some t \<Rightarrow> t > now))
       (user_blocks db)"

definition checkUserBlock_try ::
  "(det_step \<Rightarrow> bool) \<Rightarrow> int \<Rightarrow> database \<Rightarrow> string \<Rightarrow> exn + block_check" where
  "checkUserBlock_try fails now db user =
     (if fails DBlockQuery then Inl DbError
      else
        (case active_blocks now db user of
           [] \<Rightarrow> Inr \<lparr>isBlocked = False, block_reason = None\<rparr>
         | r # _ \<Rightarrow> Inr \<lparr>isBlocked = True, block_reason = Some (b_reason r)\<rparr>))"

definition checkUserBlock ::
  "(det_step \<Rightarrow> bool) \<Rightarrow> int \<Rightarrow> database \<Rightarrow> string \<Rightarrow> exn + block_check" where
  "checkUserBlock fails now db user =
     try_catch (checkUserBlock_try fails now db user) \<lparr>isBlocked = False, block_reason = None\<rparr>"

text \<open>\<open>logSuspiciousActivity\<close> catches the error of its \<open>INSERT\<close> and returns normally.\<close>

definition logSuspiciousActivity ::
  "(det_step \<Rightarrow> bool) \<Rightarrow> int \<Rightarrow> string \<Rightarrow> string \<Rightarrow> int \<Rightarrow> int \<Rightarrow> severity \<Rightarrow> database \<Rightarrow> database" where
  "logSuspiciousActivity fails now user activityType observed limit sev db =
     (if fails DLogInsert then db
      else db\<lparr>suspicious_activities := suspicious_activities db @
             [\<lparr>sa_user_address = user, sa_activity_type = activityType, sa_observed = observed,
               sa_limit = limit, sa_severity = sev, sa_detected_at = now\<rparr>]\<rparr>)"

datatype suspicion = UserBlocked "string option" | HourlyLimit | DailyLimit | SameNftLimit

record detect_result =
  isSuspicious :: bool
  reason :: "suspicion option"

text \<open>The three \<open>SELECT COUNT(*)\<close> queries over \<open>session_listens\<close>: each counts rows.\<close>

definition count_user_rows :: "database \<Rightarrow> string \<Rightarrow> int \<Rightarrow> int" where
  "count_user_rows db user since =
     int (length (filter (\<lambda>r. sl_user_address r = user \<and> sl_last_recorded r > since)
                    (session_listens db)))"

definition count_user_nft_rows :: "database \<Rightarrow> string \<Rightarrow> string \<Rightarrow> int \<Rightarrow> int" where
  "count_user_nft_rows db user nft since =
     int (length (filter (\<lambda>r. sl_user_address r = user \<and> sl_nft_address r = nft \<and>
                               sl_last_recorded r > since)
                    (session_listens db)))"

text \<open>
  The body of the outer \<open>try\<close> of \<open>detectSuspiciousActivity\<close>; \<open>now\<close> is both \<open>Date.now()\<close>
  and the store's clock. The \<open>timestamp\<close> argument is not read by the function.
\<close>

definition detectSuspiciousActivity_try ::
  "(det_step \<Rightarrow> bool) \<Rightarrow> int \<Rightarrow> database \<Rightarrow> string \<Rightarrow> string \<Rightarrow> int \<Rightarrow>
   (exn + detect_result) \<times> database" where
  "detectSuspiciousActivity_try fails now db user nft ts =
     (case checkUserBlock fails now db user of
        Inl e \<Rightarrow> (Inl e, db)
      | Inr blockCheck \<Rightarrow>
          if isBlocked blockCheck
          then (Inr \<lparr>isSuspicious = True, reason = Some (UserBlocked (block_reason blockCheck))\<rparr>, db)
          else if fails DConnect then (Inl DbError, db)
          else if fails DHourlyQuery then (Inl DbError, db)
          else
            (let oneHourAgo = now - 60 * 60 * 1000;
                 oneDayAgo = now - 24 * 60 * 60 * 1000;
                 hourlyListens = count_user_rows db user oneHourAgo
             in if hourlyListens > 50
                then (Inr \<lparr>isSuspicious = True, reason = Some HourlyLimit\<rparr>,
                      logSuspiciousActivity fails now user ''excessive_hourly_listens''
                        hourlyListens 50 High db)
                else if fails DDailyQuery then (Inl DbError, db)
                else
                  (let dailyListens = count_user_rows db user oneDayAgo
                   in if dailyListens > 500
                      then (Inr \<lparr>isSuspicious = True, reason = Some DailyLimit\<rparr>,
                            logSuspiciousActivity fails now user ''excessive_daily_listens''
                              dailyListens 500 Critical db)
                      else if fails DSameNftQuery then (Inl DbError, db)
                      else
                        (let recentSameNftListens = count_user_nft_rows db user nft oneHourAgo
                         in if recentSameNftListens > 10
                            then (Inr \<lparr>isSuspicious = True, reason = Some SameNftLimit\<rparr>,
                                  logSuspiciousActivity fails now user
                                    ''excessive_same_nft_listens'' recentSameNftListens 10
                                    Medium db)
                            else (Inr \<lparr>isSuspicious = False, reason = None\<rparr>, db)))))"

definition detectSuspiciousActivity ::
  "(det_step \<Rightarrow> bool) \<Rightarrow> int \<Rightarrow> database \<Rightarrow> string \<Rightarrow> string \<Rightarrow> int \<Rightarrow>
   (exn + detect_result) \<times> database" where
  "detectSuspiciousActivity fails now db user nft ts =
     (let r = detectSuspiciousActivity_try fails now db user nft ts
      in (try_catch (fst r) \<lparr>isSuspicious = False, reason = None\<rparr>, snd r))"

section \<open>The listen ledger (route /api/session-listens)\<close>

datatype tx_step =
    TConnect
  | TBegin
  | TSelectLast
  | TRollbackTooFrequent
  | TUpsertSessionListen
  | TUpsertNft
  | TUpsertListens
  | TCommit

datatype listen_error =
    NoSession session_error
  | MissingFields
  | BadTimestamp
  | BadNftAddress
  | NoCollection
  | CollectionNotAllowed
  | NftInfoError
  | Suspicious "suspicion option"
  | TooFrequent
  | ListenServerError

definition sl_match :: "string \<Rightarrow> string \<Rightarrow> session_listen_row \<Rightarrow> bool" where
  "sl_match user nft r = (sl_user_address r = user \<and> sl_nft_address r = nft)"

text \<open>\<open>SELECT ... WHERE user_address = $1 AND nft_address = $2 ORDER BY last_recorded DESC LIMIT 1\<close>\<close>

definition last_listen :: "database \<Rightarrow> string \<Rightarrow> string \<Rightarrow> session_listen_row option" where
  "last_listen db user nft =
     (case filter (sl_match user nft) (session_listens db) of
        [] \<Rightarrow> None
      | r # rs \<Rightarrow>
          Some (fold (\<lambda>x best. if sl_last_recorded x > sl_last_recorded best then x else best)
                  rs r))"

text \<open>
  \<open>INSERT ... ON CONFLICT (user_address, nft_address) DO UPDATE\<close>: the row of the pair is
  updated when there is one, a new row is appended otherwise.
\<close>

definition upsert_session_listen ::
  "int \<Rightarrow> string \<Rightarrow> string \<Rightarrow> string \<Rightarrow> string \<Rightarrow> int \<Rightarrow> session_listen_row list \<Rightarrow>
   session_listen_row list" where
  "upsert_session_listen now user nft collection sid ts rows =
     (if list_ex (sl_match user nft) rows
      then map (\<lambda>r. if sl_match user nft r
                     then r\<lparr>sl_count := sl_count r + 1, sl_last_recorded := ts,
                            sl_session_id := sid\<rparr>
                     else r) rows
      else rows @
        [\<lparr>sl_user_address = user, sl_nft_address = nft, sl_collection_address = collection,
          sl_session_id = sid, sl_count = 1, sl_first_recorded = now, sl_last_recorded = ts\<rparr>])"

definition upsert_nft :: "int \<Rightarrow> string \<Rightarrow> string \<Rightarrow> nft_row list \<Rightarrow> nft_row list" where
  "upsert_nft now nft collection rows =
     (if list_ex (\<lambda>r. n_address r = nft) rows
      then map (\<lambda>r. if n_address r = nft
                     then r\<lparr>n_collection_address := collection, n_updated_at := now\<rparr>
                     else r) rows
      else rows @
        [\<lparr>n_address = nft, n_collection_address = collection, n_first_listen = now,
          n_updated_at = now\<rparr>])"

definition upsert_listens :: "int \<Rightarrow> string \<Rightarrow> string \<Rightarrow> listen_row list \<Rightarrow> listen_row list" where
  "upsert_listens now nft collection rows =
     (if list_ex (\<lambda>r. l_nft_address r = nft) rows
      then map (\<lambda>r. if l_nft_address r = nft
                     then r\<lparr>l_count := l_count r + 1, l_last_updated := now\<rparr>
                     else r) rows
      else rows @
        [\<lparr>l_nft_address = nft, l_collection_address = collection, l_count = 1,
          l_last_updated = now\<rparr>])"

text \<open>The counters as a reader of the tables sees them; no row is the count 0.\<close>

definition user_listen_count :: "database \<Rightarrow> string \<Rightarrow> string \<Rightarrow> int" where
  "user_listen_count db user nft =
     (case find (sl_match user nft) (session_listens db) of None \<Rightarrow> 0 | Some r \<Rightarrow> sl_count r)"

definition user_last_recorded :: "database \<Rightarrow> string \<Rightarrow> string \<Rightarrow> int option" where
  "user_last_recorded db user nft =
     map_option sl_last_recorded (find (sl_match user nft) (session_listens db))"

definition nft_listen_count :: "database \<Rightarrow> string \<Rightarrow> int" where
  "nft_listen_count db nft =
     (case find (\<lambda>r. l_nft_address r = nft) (listens db) of None \<Rightarrow> 0 | Some r \<Rightarrow> l_count r)"

text \<open>
  The transaction of the handler, from \<open>pool.connect()\<close> to \<open>COMMIT\<close>. A statement that
  raises leads to \<open>ROLLBACK\<close> and status 500: the store is the one before \<open>BEGIN\<close>
  (\<open>TRollbackTooFrequent\<close> is the \<open>ROLLBACK\<close> that the handler sends itself before it
  answers 429). The result of a committed transaction is \<open>userListenCount\<close>, the returned
  count or 1 when that is 0.
\<close>

definition recordSessionListen ::
  "(tx_step \<Rightarrow> bool) \<Rightarrow> int \<Rightarrow> SessionData \<Rightarrow> string \<Rightarrow> string \<Rightarrow> int \<Rightarrow> database \<Rightarrow>
   (listen_error + int) \<times> database" where
  "recordSessionListen fails now session nft collection ts db =
     (if fails TConnect \<or> fails TBegin \<or> fails TSelectLast then (Inl ListenServerError, db)
      else if (case last_listen db (userAddress session) nft of
                 None \<Rightarrow> False
               | Some lastListen \<Rightarrow> ts - sl_last_recorded lastListen < 30000)
      then (if fails TRollbackTooFrequent then (Inl ListenServerError, db)
            else (Inl TooFrequent, db))
      else if fails TUpsertSessionListen \<or>
              list_ex (\<lambda>r. sl_match (userAddress session) nft r \<and> sl_count r + 1 > int4_max)
                (session_listens db)
      then (Inl ListenServerError, db)
      else if fails TUpsertNft then (Inl ListenServerError, db)
      else if fails TUpsertListens \<or>
              list_ex (\<lambda>r. l_nft_address r = nft \<and> l_count r + 1 > int4_max) (listens db)
      then (Inl ListenServerError, db)
      else if fails TCommit then (Inl ListenServerError, db)
      else
        (let db' = db
               \<lparr>session_listens :=
                  upsert_session_listen now (userAddress session) nft collection
                    (sessionId session) ts (session_listens db),
                nfts := upsert_nft now nft collection (nfts db),
                listens := upsert_listens now nft collection (listens db)\<rparr>;
             returned = user_listen_count db' (userAddress session) nft
         in (Inr (if returned = 0 then 1 else returned), db')))"

record NftListenRequest =
  nftAddress :: string
  lr_timestamp :: int

text \<open>
  The whole handler behind \<open>checkSession\<close>. \<open>nft_info\<close> is the indexer's
  \<open>getNftItemByAddress\<close>, which gives the collection address of the item when it has one,
  \<open>whitelist\<close> the list in \<open>whitelist.json\<close>.
\<close>

definition session_listens_route ::
  "address_lib \<Rightarrow> (string \<Rightarrow> exn + string option) \<Rightarrow> string list \<Rightarrow> (det_step \<Rightarrow> bool) \<Rightarrow>
   (tx_step \<Rightarrow> bool) \<Rightarrow> int \<Rightarrow> string option \<Rightarrow> NftListenRequest \<Rightarrow> session_store \<times> database \<Rightarrow>
   (listen_error + int) \<times> session_store \<times> database" where
  "session_listens_route al nft_info whitelist dfails tfails now authHeader body s =
     (case checkSession now authHeader (fst s) of
        (Inl e, st) \<Rightarrow> (Inl (NoSession e), st, snd s)
      | (Inr session, st) \<Rightarrow>
          if nftAddress body = [] \<or> lr_timestamp body = 0 then (Inl MissingFields, st, snd s)
          else if \<bar>now - lr_timestamp body\<bar> > 10 * 60 * 1000 then (Inl BadTimestamp, st, snd s)
          else
            (case normalize al (nftAddress body) of
               None \<Rightarrow> (Inl BadNftAddress, st, snd s)
             | Some normalizedNftAddress \<Rightarrow>
                 (case nft_info normalizedNftAddress of
                    Inl e \<Rightarrow> (Inl NftInfoError, st, snd s)
                  | Inr None \<Rightarrow> (Inl NoCollection, st, snd s)
                  | Inr (Some c) \<Rightarrow>
                      if c = [] then (Inl NoCollection, st, snd s)
                      else
                        (case normalize al c of
                           None \<Rightarrow> (Inl NftInfoError, st, snd s)
                         | Some collectionAddress \<Rightarrow>
                             if collectionAddress \<notin> set whitelist
                             then (Inl CollectionNotAllowed, st, snd s)
                             else
                               (case detectSuspiciousActivity dfails now (snd s)
                                       (userAddress session) normalizedNftAddress
                                       (lr_timestamp body) of
                                  (Inl e, db1) \<Rightarrow> (Inl ListenServerError, st, db1)
                                | (Inr verdict, db1) \<Rightarrow>
                                    if isSuspicious verdict
                                    then (Inl (Suspicious (reason verdict)), st, db1)
                                    else
                                      (case recordSessionListen tfails now session
                                              normalizedNftAddress collectionAddress
                                              (lr_timestamp body) db1 of
                                         (r, db2) \<Rightarrow> (r, st, db2)))))))"

section \<open>API keys (apiKeyService)\<close>





text \<open>
  \<open>validateApiKey\<close>: the owner and expiry of a key that is stored and not past its expiry;
  a stored key past its expiry is deleted.
\<close>

definition validateApiKey :: "int \<Rightarrow> string \<Rightarrow> database \<Rightarrow> (string \<times> int) option \<times> database" where
  "validateApiKey now apiKey db =
     (case find (\<lambda>k. k_key k = apiKey) (api_keys db) of
        None \<Rightarrow> (None, db)
      | Some keyData \<Rightarrow>
          if now > k_expires_at keyData
          then (None, db\<lparr>api_keys := filter (\<lambda>k. k_key k \<noteq> apiKey) (api_keys db)\<rparr>)
          else (Some (k_address keyData, k_expires_at keyData), db))"

section \<open>Sequences of listen transactions and table constraints\<close>

text \<open>
  One call of the ledger transaction with its environment, and a sequence of calls run one
  after the other; the sequence has a result when every call committed.
\<close>

record listen_call =
  lc_fails :: "tx_step \<Rightarrow> bool"
  lc_now :: int
  lc_session :: SessionData
  lc_nft :: string
  lc_collection :: string
  lc_timestamp :: int

definition run_call :: "listen_call \<Rightarrow> database \<Rightarrow> (listen_error + int) \<times> database" where
  "run_call c db =
     recordSessionListen (lc_fails c) (lc_now c) (lc_session c) (lc_nft c) (lc_collection c)
       (lc_timestamp c) db"

fun record_all :: "listen_call list \<Rightarrow> database \<Rightarrow> database option" where
  "record_all [] db = Some db"
| "record_all (c # cs) db =
     (case run_call c db of
        (Inl e, db') \<Rightarrow> None
      | (Inr k, db') \<Rightarrow> record_all cs db')"

text \<open>The constraint \<open>UNIQUE(user_address, nft_address)\<close> of \<open>session_listens\<close>.\<close>

definition sl_unique :: "database \<Rightarrow> bool" where
  "sl_unique db = distinct (map (\<lambda>r. (sl_user_address r, sl_nft_address r)) (session_listens db))"

text \<open>
  Eleven listens of one NFT by one user, 30 seconds apart, starting from an empty store;
  the clock of each call is the timestamp of the listen.
\<close>

definition demo_session :: SessionData where
  "demo_session =
     \<lparr>sessionId = ''tok1'', userAddress = ''EQ_alice'', createdAt = 0, expiresAt = 3600000,
      signatureVerified = True\<rparr>"

definition demo_listen :: "nat \<Rightarrow> listen_call" where
  "demo_listen i =
     \<lparr>lc_fails = (\<lambda>s. False), lc_now = 1000000 + 30000 * int i, lc_session = demo_session,
      lc_nft = ''EQ_nft'', lc_collection = ''EQ_col'',
      lc_timestamp = 1000000 + 30000 * int i\<rparr>"

definition eleven_listens :: "listen_call list" where
  "eleven_listens = map demo_listen [0..<11]"

definition db_after_eleven :: database where
  "db_after_eleven =
     empty_database
       \<lparr>session_listens :=
          [\<lparr>sl_user_address = ''EQ_alice'', sl_nft_address = ''EQ_nft'',
            sl_collection_address = ''EQ_col'', sl_session_id = ''tok1'', sl_count = 11,
            sl_first_recorded = 1000000, sl_last_recorded = 1300000\<rparr>],
        nfts :=
          [\<lparr>n_address = ''EQ_nft'', n_collection_address = ''EQ_col'', n_first_listen = 1000000,
            n_updated_at = 1300000\<rparr>],
        listens :=
          [\<lparr>l_nft_address = ''EQ_nft'', l_collection_address = ''EQ_col'', l_count = 11,
            l_last_updated = 1300000\<rparr>]\<rparr>"

definition blocked_db :: database where
  "blocked_db =
     empty_database
       \<lparr>user_blocks :=
          [\<lparr>b_user_address = ''EQ_alice'', b_reason = ''abuse'', b_blocked_until = None,
            b_is_active = True\<rparr>]\<rparr>"

definition db_after_thirteen :: database where
  "db_after_thirteen =
     empty_database
       \<lparr>session_listens :=
          [\<lparr>sl_user_address = ''EQ_alice'', sl_nft_address = ''EQ_nft'',
            sl_collection_address = ''EQ_col'', sl_session_id = ''tok1'', sl_count = 13,
            sl_first_recorded = 1000000, sl_last_recorded = 1360000\<rparr>],
        nfts :=
          [\<lparr>n_address = ''EQ_nft'', n_collection_address = ''EQ_col'', n_first_listen = 1000000,
            n_updated_at = 1360000\<rparr>],
        listens :=
          [\<lparr>l_nft_address = ''EQ_nft'', l_collection_address = ''EQ_col'', l_count = 13,
            l_last_updated = 1360000\<rparr>]\<rparr>"


section \<open>Properties of the session registry\<close>










lemma stale_store_facts:
  "getSession ''tok1'' stale_store = Some stale_session"
  "getUserSession ''EQ_alice'' stale_store = Some ''tok1''"
  "expiresAt stale_session = 3600000"
  by (simp_all add: stale_store_def stale_session_def addSession_def empty_store_def
      getSession_def getUserSession_def)



section \<open>Properties of session creation\<close>

lemma existing_session_iff:
  "existing_session now a st = Some (sid, rec) \<longleftrightarrow>
     getUserSession a st = Some sid \<and> sid \<noteq> [] \<and> getSession sid st = Some rec \<and>
     now < expiresAt rec"
  by (auto simp: existing_session_def split: option.splits if_splits)

lemma session_create_existing:
  assumes "rq_signature req \<noteq> []" and "rq_address req \<noteq> []" and "rq_timestamp req \<noteq> 0"
    and "rq_domain req \<noteq> []" and "rq_payload req = Some (PayloadText (expectedText cfg))"
    and "expectedText cfg \<noteq> []" and "now div 1000 - rq_timestamp req \<le> 5 * 60"
    and "normalize al (rq_address req) = Some a"
    and "existing_session now a (fst s) = Some (sid, rec)"
  shows "session_create al cl cfg db_down now req s = (Inr (sid, expiresAt rec), s)"
  using assms by (simp add: session_create_def)

lemma addSession_lookup:
  "getSession sid (addSession sid d st) = Some d"
  "getUserSession (userAddress d) (addSession sid d st) = Some sid"
  by (simp_all add: getSession_def getUserSession_def addSession_def AList.update_conv')

lemma session_create_ok_registered:
  assumes "session_create al cl cfg db_down now req s = (Inr (sid, exp), s1)"
  shows "\<exists>a rec. normalize al (rq_address req) = Some a \<and>
           getUserSession a (fst s1) = Some sid \<and> getSession sid (fst s1) = Some rec \<and>
           expiresAt rec = exp"
proof -
  from assms obtain a where a: "normalize al (rq_address req) = Some a"
    by (auto simp: session_create_def split: if_splits option.splits SignDataPayload.splits)
  show ?thesis
  proof (cases "existing_session now a (fst s)")
    case (Some p)
    obtain sid0 rec0 where p: "p = (sid0, rec0)" by (cases p)
    from assms a Some p have "sid = sid0" "exp = expiresAt rec0" "s1 = s"
      by (auto simp: session_create_def split: if_splits option.splits SignDataPayload.splits)
    moreover from Some p have "getUserSession a (fst s) = Some sid0"
      "getSession sid0 (fst s) = Some rec0"
      by (simp_all add: existing_session_iff)
    ultimately show ?thesis using a by blast
  next
    case None
    let ?rec = "\<lparr>sessionId = sid, userAddress = a, createdAt = now,
                 expiresAt = now + 60 * 60 * 1000, signatureVerified = True\<rparr>"
    from assms a None have "fst s1 = addSession sid ?rec (fst s)" "exp = now + 60 * 60 * 1000"
      by (auto simp: session_create_def Let_def
          split: if_splits option.splits SignDataPayload.splits sum.splits bool.splits)
    then have "getUserSession a (fst s1) = Some sid" "getSession sid (fst s1) = Some ?rec"
      "expiresAt ?rec = exp"
      using addSession_lookup(1) [of sid ?rec "fst s"] addSession_lookup(2) [of ?rec sid "fst s"]
      by simp_all
    then show ?thesis using a by blast
  qed
qed

lemma demo_normalize:
  "normalize demo_address_lib ''0:alice'' = Some ''EQ_alice''"
  "normalize demo_address_lib ''EQ_alice'' = Some ''EQ_alice''"
  by (simp_all add: normalize_def demo_address_lib_def)

lemma demo_request_fields:
  "rq_address demo_request = ''0:alice''" "rq_timestamp demo_request = 900"
  "rq_domain demo_request = ''localhost:3000''"
  "rq_payload demo_request = Some (PayloadText ''consent'')"
  "rq_signature demo_request = ''c2ln''"
  "expectedText demo_cfg = ''consent''"
  by (simp_all add: demo_request_def demo_cfg_def)

lemma rejecting_crypto_refuses:
  "checkSignData demo_address_lib rejecting_crypto (\<lambda>a. Inr (getWalletPublicKey demo_cfg a)) now
     \<lparr>signature = sg, address = ''EQ_alice'', timestamp = 900, domain = ''localhost:3000'',
      payload = PayloadText ''consent'', public_key = pk, walletStateInit = w\<rparr> = Inr False"
  by (simp add: checkSignData_def checkSignData_try_def try_catch_def demo_address_lib_def
      demo_cfg_def rejecting_crypto_def createTextBinaryHash_def Let_def allowedDomains_def
      validAuthTime_def writeInt32BE_def writeUInt32BE_def writeBigUInt64BE_def utf8_def)

lemma accepting_crypto_accepts:
  "0 \<le> ts \<Longrightarrow> ts < 2 ^ 64 \<Longrightarrow> now div 1000 - 900 \<le> ts \<Longrightarrow>
   checkSignData demo_address_lib accepting_crypto (\<lambda>a. Inr (getWalletPublicKey demo_cfg a)) now
     \<lparr>signature = sg, address = ''EQ_alice'', timestamp = ts, domain = ''localhost:3000'',
      payload = PayloadText ''consent'', public_key = pk, walletStateInit = w\<rparr> = Inr True"
  by (simp add: checkSignData_def checkSignData_try_def try_catch_def demo_address_lib_def
      demo_cfg_def accepting_crypto_def createTextBinaryHash_def Let_def allowedDomains_def
      validAuthTime_def writeInt32BE_def writeUInt32BE_def writeBigUInt64BE_def utf8_def)

lemma rejecting_crypto_refuses_at:
  "checkSignData demo_address_lib rejecting_crypto (\<lambda>a. Inr (getWalletPublicKey stamped_cfg a)) now
     \<lparr>signature = sg, address = ''EQ_alice'', timestamp = ts, domain = ''localhost:3000'',
      payload = PayloadText ''consent'', public_key = pk, walletStateInit = w\<rparr> = Inr False"
  by (simp add: checkSignData_def checkSignData_try_def try_catch_def demo_address_lib_def
      stamped_cfg_def demo_cfg_def rejecting_crypto_def createTextBinaryHash_def Let_def
      allowedDomains_def validAuthTime_def writeInt32BE_def writeUInt32BE_def
      writeBigUInt64BE_def utf8_def)

lemma stamped_cfg_fields:
  "expectedText stamped_cfg = ''consent''"
  "getWalletPublicKey stamped_cfg = getWalletPublicKey demo_cfg"
  "jwt_sign stamped_cfg a d t 3700000 = ''jwt.A''"
  "jwt_sign stamped_cfg a d t 4000000 = ''jwt.B''"
  by (simp_all add: stamped_cfg_def demo_cfg_def)

lemma renewal_request_fields:
  "rq_signature (renewal_request ts) = ''c2ln''"
  "rq_address (renewal_request ts) = ''0:alice''"
  "rq_timestamp (renewal_request ts) = ts"
  "rq_domain (renewal_request ts) = ''localhost:3000''"
  "rq_payload (renewal_request ts) = Some (PayloadText ''consent'')"
  "rq_public_key (renewal_request ts) = []"
  "rq_walletStateInit (renewal_request ts) = []"
  by (simp_all add: renewal_request_def demo_request_def)

text \<open>
  The sweep at 3900000 visits the expired \<open>tok1\<close>, deletes it and deletes the entry of its
  owner from \<open>userSessions\<close>, which by then points to the live \<open>jwt.A\<close>. A request with
  the old token does the same through \<open>checkSession\<close>.
\<close>

lemma renewed_store_swept:
  "session_cleanup 3900000 renewed_store
     = \<lparr>activeSessions = [(''jwt.A'', session_A)], userSessions = []\<rparr>"
  by (simp add: session_cleanup_def renewed_store_def stale_store_def addSession_def
      empty_store_def drop_session_def stale_session_def session_A_def)

lemma renewed_store_old_token:
  "checkSession 3900000 (Some ''Bearer tok1'') renewed_store
     = (Inl SessionExpired, \<lparr>activeSessions = [(''jwt.A'', session_A)], userSessions = []\<rparr>)"
  by (simp add: checkSession_def bearer_token_def renewed_store_def stale_store_def
      addSession_def empty_store_def drop_session_def stale_session_def session_A_def)

lemma first_renewal:
  "session_create demo_address_lib accepting_crypto stamped_cfg False 3700000
     (renewal_request 3600) (stale_store, empty_database)
     = (Inr (''jwt.A'', 7300000), (renewed_store, renewed_db))"
proof -
  have none: "existing_session 3700000 ''EQ_alice'' stale_store = None"
    by (simp add: existing_session_def stale_store_facts)
  have sig: "checkSignData demo_address_lib accepting_crypto
        (\<lambda>a. Inr (getWalletPublicKey demo_cfg a)) 3700000
        \<lparr>signature = ''c2ln'', address = ''EQ_alice'', timestamp = 3600,
         domain = ''localhost:3000'', payload = PayloadText ''consent'', public_key = [],
         walletStateInit = []\<rparr> = Inr True"
    by (rule accepting_crypto_accepts) simp_all
  show ?thesis
    by (simp add: session_create_def renewal_request_fields stamped_cfg_fields demo_normalize
        none sig insert_listening_session_def empty_database_def Let_def renewed_store_def
        renewed_db_def session_A_def)
qed

lemma second_renewal:
  "session_create demo_address_lib accepting_crypto stamped_cfg False 4000000
     (renewal_request 3900) (session_cleanup 3900000 renewed_store, renewed_db)
     = (Inr (''jwt.B'', 7600000),
        (addSession ''jwt.B'' session_B (session_cleanup 3900000 renewed_store),
         twice_renewed_db))"
proof -
  have none: "existing_session 4000000 ''EQ_alice'' (session_cleanup 3900000 renewed_store) = None"
    by (simp add: existing_session_def getUserSession_def renewed_store_swept)
  have sig: "checkSignData demo_address_lib accepting_crypto
        (\<lambda>a. Inr (getWalletPublicKey demo_cfg a)) 4000000
        \<lparr>signature = ''c2ln'', address = ''EQ_alice'', timestamp = 3900,
         domain = ''localhost:3000'', payload = PayloadText ''consent'', public_key = [],
         walletStateInit = []\<rparr> = Inr True"
    by (rule accepting_crypto_accepts) simp_all
  show ?thesis
    by (simp add: session_create_def renewal_request_fields stamped_cfg_fields demo_normalize
        none sig insert_listening_session_def empty_database_def Let_def renewed_db_def
        twice_renewed_db_def session_B_def)
qed

lemma forged_renewal:
  "session_create demo_address_lib rejecting_crypto stamped_cfg False 4000000
     ((renewal_request 3900)\<lparr>rq_signature := ''forged''\<rparr>)
     (session_cleanup 3900000 renewed_store, renewed_db)
     = (Inl BadSignature, (session_cleanup 3900000 renewed_store, renewed_db))"
proof -
  have none: "existing_session 4000000 ''EQ_alice'' (session_cleanup 3900000 renewed_store) = None"
    by (simp add: existing_session_def getUserSession_def renewed_store_swept)
  show ?thesis
    by (simp add: session_create_def renewal_request_fields stamped_cfg_fields(1) demo_normalize
        none rejecting_crypto_refuses_at)
qed

lemma two_live_sessions:
  "getSession ''jwt.A'' (addSession ''jwt.B'' session_B (session_cleanup 3900000 renewed_store))
     = Some session_A"
  "getSession ''jwt.B'' (addSession ''jwt.B'' session_B (session_cleanup 3900000 renewed_store))
     = Some session_B"
  "userAddress session_A = ''EQ_alice''" "userAddress session_B = ''EQ_alice''"
  "expiresAt session_A = 7300000" "expiresAt session_B = 7600000"
  by (simp_all add: getSession_def addSession_def renewed_store_swept session_A_def session_B_def)

text \<open>
  Claim C3, with the lookup the handler makes. The handler finds a session of an address
  through the by-address index only. When the entry of the request's address in
  \<open>userSessions\<close> names a non-empty session id whose record is registered and unexpired, a
  request that passes the field, payload, freshness, text and address checks of the handler
  gets that session id and leaves the registry and the store as they are. The answer does
  not depend on the signature (any non-empty string), on the cryptographic primitives or
  on the key resolver: \<open>checkSignData\<close> is not consulted on this path.
\<close>

theorem existing_session_returned_without_signature_check:
  assumes "normalize al (rq_address req) = Some a"
    and "getUserSession a (fst s) = Some sid" and "sid \<noteq> []"
    and "getSession sid (fst s) = Some rec" and "now < expiresAt rec"
    and "rq_address req \<noteq> []" and "rq_timestamp req \<noteq> 0" and "rq_domain req \<noteq> []"
    and "rq_payload req = Some (PayloadText (expectedText cfg))" and "expectedText cfg \<noteq> []"
    and "now div 1000 - rq_timestamp req \<le> 5 * 60"
    and "sg \<noteq> []" and "sg' \<noteq> []"
  shows "session_create al cl cfg dd now (req\<lparr>rq_signature := sg\<rparr>) s
           = (Inr (sid, expiresAt rec), s) \<and>
         session_create al cl' (cfg\<lparr>getWalletPublicKey := k'\<rparr>) dd' now
             (req\<lparr>rq_signature := sg'\<rparr>) s
           = session_create al cl cfg dd now (req\<lparr>rq_signature := sg\<rparr>) s"
proof -
  have ex: "existing_session now a (fst s) = Some (sid, rec)"
    using assms(2-5) by (simp add: existing_session_iff)
  have one: "session_create al cl cfg dd now (req\<lparr>rq_signature := sg\<rparr>) s
               = (Inr (sid, expiresAt rec), s)"
    by (rule session_create_existing [where a = a]) (use assms ex in simp_all)
  have two: "session_create al cl' (cfg\<lparr>getWalletPublicKey := k'\<rparr>) dd' now
               (req\<lparr>rq_signature := sg'\<rparr>) s = (Inr (sid, expiresAt rec), s)"
    by (rule session_create_existing [where a = a]) (use assms ex in simp_all)
  from one two show ?thesis by simp
qed

theorem existing_session_returned_without_signature_check_witness:
  "session_create demo_address_lib rejecting_crypto demo_cfg False 1000000
     (demo_request\<lparr>rq_signature := ''forged''\<rparr>) (stale_store, empty_database)
     = (Inr (''tok1'', 3600000), (stale_store, empty_database)) \<and>
   session_create demo_address_lib accepting_crypto
     (demo_cfg\<lparr>getWalletPublicKey := (\<lambda>a. None)\<rparr>) True 1000000
     (demo_request\<lparr>rq_signature := ''c2ln''\<rparr>) (stale_store, empty_database)
     = (Inr (''tok1'', 3600000), (stale_store, empty_database)) \<and>
   session_create demo_address_lib rejecting_crypto demo_cfg False 1000000
     (demo_request\<lparr>rq_signature := ''forged''\<rparr>) (empty_store, empty_database)
     = (Inl BadSignature, (empty_store, empty_database))"
proof -
  have live: "(1000000::int) < expiresAt stale_session"
    by (simp add: stale_store_facts(3))
  have fresh: "(1000000::int) div 1000 - rq_timestamp demo_request \<le> 5 * 60"
    by (simp add: demo_request_fields)
  have main: "session_create demo_address_lib rejecting_crypto demo_cfg False 1000000
        (demo_request\<lparr>rq_signature := ''forged''\<rparr>) (stale_store, empty_database)
        = (Inr (''tok1'', expiresAt stale_session), (stale_store, empty_database)) \<and>
      session_create demo_address_lib accepting_crypto
        (demo_cfg\<lparr>getWalletPublicKey := (\<lambda>a. None)\<rparr>) True 1000000
        (demo_request\<lparr>rq_signature := ''c2ln''\<rparr>) (stale_store, empty_database)
        = session_create demo_address_lib rejecting_crypto demo_cfg False 1000000
            (demo_request\<lparr>rq_signature := ''forged''\<rparr>) (stale_store, empty_database)"
    by (rule existing_session_returned_without_signature_check
          [where a = "''EQ_alice''" and sid = "''tok1''" and rec = stale_session])
       (use live fresh in \<open>simp_all add: demo_normalize demo_request_fields stale_store_facts\<close>)
  have refused: "session_create demo_address_lib rejecting_crypto demo_cfg False 1000000
        (demo_request\<lparr>rq_signature := ''forged''\<rparr>) (empty_store, empty_database)
        = (Inl BadSignature, (empty_store, empty_database))"
    using rejecting_crypto_refuses [of 1000000 "''forged''" "''''" "''''"]
    by (simp add: session_create_def demo_request_fields demo_normalize existing_session_def
        getUserSession_def empty_store_def demo_request_def
        split: sum.splits bool.splits)
  from main refused show ?thesis by (simp add: stale_store_facts(3))
qed

text \<open>
  Claim C3 as it is written fails. After the renewal and the sweep, the account has the
  unexpired record \<open>jwt.A\<close> in \<open>activeSessions\<close> and no entry in \<open>userSessions\<close>. The
  handler then verifies the signature: a forged one is refused, an accepted one gets the
  new id \<open>jwt.B\<close>; neither call returns \<open>jwt.A\<close>.
\<close>

theorem live_session_without_address_entry_checks_signature:
  "getSession ''jwt.A'' (session_cleanup 3900000 renewed_store) = Some session_A \<and>
   userAddress session_A = ''EQ_alice'' \<and>
   4000000 < expiresAt session_A \<and>
   getUserSession ''EQ_alice'' (session_cleanup 3900000 renewed_store) = None \<and>
   session_create demo_address_lib rejecting_crypto stamped_cfg False 4000000
     ((renewal_request 3900)\<lparr>rq_signature := ''forged''\<rparr>)
     (session_cleanup 3900000 renewed_store, renewed_db)
     = (Inl BadSignature, (session_cleanup 3900000 renewed_store, renewed_db)) \<and>
   session_create demo_address_lib accepting_crypto stamped_cfg False 4000000
     (renewal_request 3900) (session_cleanup 3900000 renewed_store, renewed_db)
     = (Inr (''jwt.B'', 7600000),
        (addSession ''jwt.B'' session_B (session_cleanup 3900000 renewed_store),
         twice_renewed_db))"
proof -
  have live: "getSession ''jwt.A'' (session_cleanup 3900000 renewed_store) = Some session_A"
    "getUserSession ''EQ_alice'' (session_cleanup 3900000 renewed_store) = None"
    by (simp_all add: getSession_def getUserSession_def renewed_store_swept)
  from live forged_renewal second_renewal show ?thesis
    by (simp add: two_live_sessions)
qed

text \<open>
  Two calls with nothing between them: when a call has answered with session id \<open>sid\<close>
  and expiry \<open>exp\<close>, a call on the registry that the first one left, for the same account
  and before \<open>exp\<close>, answers with the same id and expiry and inserts nothing.
\<close>

lemma session_create_again_same_store:
  assumes "session_create al cl cfg dd t1 req1 s = (Inr (sid, exp), s1)" and "sid \<noteq> []"
    and "normalize al (rq_address req2) = normalize al (rq_address req1)"
    and "t2 < exp"
    and "rq_signature req2 \<noteq> []" and "rq_address req2 \<noteq> []" and "rq_timestamp req2 \<noteq> 0"
    and "rq_domain req2 \<noteq> []" and "rq_payload req2 = Some (PayloadText (expectedText cfg))"
    and "expectedText cfg \<noteq> []" and "t2 div 1000 - rq_timestamp req2 \<le> 5 * 60"
  shows "session_create al cl' cfg dd' t2 req2 s1 = (Inr (sid, exp), s1)"
proof -
  from session_create_ok_registered [OF assms(1)]
  obtain a rec where a: "normalize al (rq_address req1) = Some a"
    and reg: "getUserSession a (fst s1) = Some sid" "getSession sid (fst s1) = Some rec"
    and exp: "expiresAt rec = exp"
    by blast
  have ex: "existing_session t2 a (fst s1) = Some (sid, rec)"
    using reg exp assms(2,4) by (simp add: existing_session_iff)
  have "session_create al cl' cfg dd' t2 req2 s1 = (Inr (sid, expiresAt rec), s1)"
    by (rule session_create_existing [where a = a]) (use assms a ex in simp_all)
  then show ?thesis by (simp add: exp)
qed

text \<open>
  Claim C4 at a concrete input. The account renews its session at 3700000 while its
  expired session \<open>tok1\<close> is still registered, and gets \<open>jwt.A\<close>, valid until 7300000.
  The sweep at 3900000 (or a request with the old token) removes \<open>tok1\<close> and with it the
  by-address entry of the account. A second call at 4000000, before the expiry of
  \<open>jwt.A\<close>, does not find \<open>jwt.A\<close>: it answers with another id, \<open>jwt.B\<close>, and inserts a
  second record, so that the account has two live sessions.
\<close>

theorem second_session_after_sweep:
  "session_create demo_address_lib accepting_crypto stamped_cfg False 3700000
     (renewal_request 3600) (stale_store, empty_database)
     = (Inr (''jwt.A'', 7300000), (renewed_store, renewed_db)) \<and>
   session_cleanup 3900000 renewed_store
     = \<lparr>activeSessions = [(''jwt.A'', session_A)], userSessions = []\<rparr> \<and>
   checkSession 3900000 (Some ''Bearer tok1'') renewed_store
     = (Inl SessionExpired, \<lparr>activeSessions = [(''jwt.A'', session_A)], userSessions = []\<rparr>) \<and>
   (4000000 :: int) < 7300000 \<and>
   session_create demo_address_lib accepting_crypto stamped_cfg False 4000000
     (renewal_request 3900) (session_cleanup 3900000 renewed_store, renewed_db)
     = (Inr (''jwt.B'', 7600000),
        (addSession ''jwt.B'' session_B (session_cleanup 3900000 renewed_store),
         twice_renewed_db)) \<and>
   getSession ''jwt.A'' (addSession ''jwt.B'' session_B (session_cleanup 3900000 renewed_store))
     = Some session_A \<and>
   getSession ''jwt.B'' (addSession ''jwt.B'' session_B (session_cleanup 3900000 renewed_store))
     = Some session_B \<and>
   userAddress session_A = userAddress session_B \<and>
   4000000 < expiresAt session_A \<and> 4000000 < expiresAt session_B"
proof -
  have both: "userAddress session_A = userAddress session_B"
    "4000000 < expiresAt session_A" "4000000 < expiresAt session_B"
    by (simp_all add: two_live_sessions)
  from first_renewal renewed_store_swept renewed_store_old_token second_renewal
    two_live_sessions(1,2) both
  show ?thesis by simp
qed

section \<open>Properties of sign-data verification\<close>

lemma checkSignData_returns:
  "checkSignData al cl getKey now_ms p =
     Inr (checkSignData_try al cl getKey now_ms p = Inr True)"
  by (cases "checkSignData_try al cl getKey now_ms p")
     (auto simp: checkSignData_def try_catch_def)

lemma demo_dto_accepted:
  "checkSignData demo_address_lib accepting_crypto (\<lambda>a. Inr (Some [])) 1000000 demo_dto
     = Inr True"
  using accepting_crypto_accepts [of 900 1000000 "''c2ln''" "[]" "[]"]
  by (simp add: demo_dto_def demo_cfg_def)

text \<open>
  Claim C8. \<open>checkSignData\<close> never throws: for every request, every resolver and every
  behaviour of the library primitives the caller receives a boolean, and when anything
  inside the \<open>try\<close> block throws, that boolean is \<open>false\<close>.
\<close>

theorem checkSignData_never_throws:
  "(\<exists>b. checkSignData al cl getKey now_ms p = Inr b) \<and>
   (\<forall>e. checkSignData_try al cl getKey now_ms p = Inl e \<longrightarrow>
        checkSignData al cl getKey now_ms p = Inr False)"
proof
  show "\<exists>b. checkSignData al cl getKey now_ms p = Inr b"
    using checkSignData_returns [of al cl getKey now_ms p] by blast
next
  show "\<forall>e. checkSignData_try al cl getKey now_ms p = Inl e \<longrightarrow>
          checkSignData al cl getKey now_ms p = Inr False"
    by (simp add: checkSignData_def try_catch_def)
qed

text \<open>
  The witness: an address that \<open>Address.parse\<close> refuses, a resolver that rejects, and a
  verification primitive that throws, each under an allowed domain and a fresh timestamp.
\<close>

theorem checkSignData_never_throws_witness:
  "checkSignData_try demo_address_lib accepting_crypto (\<lambda>a. Inr (Some [])) 1000000
     (demo_dto\<lparr>address := ''garbage''\<rparr>) = Inl AddressParseError \<and>
   checkSignData demo_address_lib accepting_crypto (\<lambda>a. Inr (Some [])) 1000000
     (demo_dto\<lparr>address := ''garbage''\<rparr>) = Inr False \<and>
   checkSignData_try demo_address_lib accepting_crypto (\<lambda>a. Inl ResolverError) 1000000 demo_dto
     = Inl ResolverError \<and>
   checkSignData demo_address_lib accepting_crypto (\<lambda>a. Inl ResolverError) 1000000 demo_dto
     = Inr False \<and>
   checkSignData_try demo_address_lib (accepting_crypto\<lparr>nacl_verify := (\<lambda>m sg k. Inl NaclError)\<rparr>)
     (\<lambda>a. Inr (Some [])) 1000000 demo_dto = Inl NaclError \<and>
   checkSignData demo_address_lib (accepting_crypto\<lparr>nacl_verify := (\<lambda>m sg k. Inl NaclError)\<rparr>)
     (\<lambda>a. Inr (Some [])) 1000000 demo_dto = Inr False"
proof -
  have t1: "checkSignData_try demo_address_lib accepting_crypto (\<lambda>a. Inr (Some [])) 1000000
      (demo_dto\<lparr>address := ''garbage''\<rparr>) = Inl AddressParseError"
    by (simp add: checkSignData_try_def demo_dto_def demo_address_lib_def allowedDomains_def
        validAuthTime_def)
  have t2: "checkSignData_try demo_address_lib accepting_crypto (\<lambda>a. Inl ResolverError) 1000000
      demo_dto = Inl ResolverError"
    by (simp add: checkSignData_try_def demo_dto_def demo_address_lib_def allowedDomains_def
        validAuthTime_def)
  have t3: "checkSignData_try demo_address_lib
      (accepting_crypto\<lparr>nacl_verify := (\<lambda>m sg k. Inl NaclError)\<rparr>)
      (\<lambda>a. Inr (Some [])) 1000000 demo_dto = Inl NaclError"
    by (simp add: checkSignData_try_def demo_dto_def demo_address_lib_def allowedDomains_def
        validAuthTime_def createTextBinaryHash_def writeInt32BE_def writeUInt32BE_def
        writeBigUInt64BE_def utf8_def Let_def)
  from t1 t2 t3
    checkSignData_never_throws [of demo_address_lib accepting_crypto "\<lambda>a. Inr (Some [])" 1000000
      "demo_dto\<lparr>address := ''garbage''\<rparr>"]
    checkSignData_never_throws [of demo_address_lib accepting_crypto "\<lambda>a. Inl ResolverError"
      1000000 demo_dto]
    checkSignData_never_throws [of demo_address_lib
      "accepting_crypto\<lparr>nacl_verify := (\<lambda>m sg k. Inl NaclError)\<rparr>" "\<lambda>a. Inr (Some [])"
      1000000 demo_dto]
  show ?thesis by blast
qed

text \<open>
  Claim C9. A request whose domain is not in \<open>allowedDomains\<close> is refused with \<open>false\<close>,
  whatever the signature and whatever the verification primitive would answer.
\<close>

theorem foreign_domain_rejected:
  assumes "domain p \<notin> set allowedDomains"
  shows "checkSignData al cl getKey now_ms p = Inr False"
  using assms by (simp add: checkSignData_def checkSignData_try_def try_catch_def)

text \<open>
  The witness: a request that verifies under its own domain is refused once the domain is
  one outside the list, with primitives under which every signature verifies.
\<close>

theorem foreign_domain_rejected_witness:
  "''evil.example'' \<notin> set allowedDomains \<and>
   checkSignData demo_address_lib accepting_crypto (\<lambda>a. Inr (Some [])) 1000000 demo_dto
     = Inr True \<and>
   checkSignData demo_address_lib accepting_crypto (\<lambda>a. Inr (Some [])) 1000000
     (demo_dto\<lparr>domain := ''evil.example''\<rparr>) = Inr False"
proof -
  have out: "domain (demo_dto\<lparr>domain := ''evil.example''\<rparr>) \<notin> set allowedDomains"
    by (simp add: allowedDomains_def)
  have out': "''evil.example'' \<notin> set allowedDomains"
    by (simp add: allowedDomains_def)
  from foreign_domain_rejected [OF out] out' demo_dto_accepted
  show ?thesis by simp
qed

section \<open>Properties of the block check and the detector\<close>

lemma checkUserBlock_returns:
  "\<exists>b. checkUserBlock fails now db user = Inr b"
  by (cases "checkUserBlock_try fails now db user") (simp_all add: checkUserBlock_def try_catch_def)

lemma checkUserBlock_query_fails:
  "fails DBlockQuery \<Longrightarrow>
   checkUserBlock fails now db user = Inr \<lparr>isBlocked = False, block_reason = None\<rparr>"
  by (simp add: checkUserBlock_def checkUserBlock_try_def try_catch_def)

lemma checkUserBlock_no_rows:
  "checkUserBlock (fails(DBlockQuery := False)) now (db\<lparr>user_blocks := []\<rparr>) user
     = Inr \<lparr>isBlocked = False, block_reason = None\<rparr>"
  by (simp add: checkUserBlock_def checkUserBlock_try_def try_catch_def active_blocks_def)

lemma detect_returns:
  "\<exists>v. fst (detectSuspiciousActivity fails now db user nft ts) = Inr v"
  by (cases "fst (detectSuspiciousActivity_try fails now db user nft ts)")
     (simp_all add: detectSuspiciousActivity_def try_catch_def Let_def)

lemma detect_try_unblocked:
  assumes "checkUserBlock fails now db user = Inr \<lparr>isBlocked = False, block_reason = None\<rparr>"
    and "checkUserBlock fails' now db' user = Inr \<lparr>isBlocked = False, block_reason = None\<rparr>"
    and "session_listens db' = session_listens db"
    and "\<And>s. s \<noteq> DBlockQuery \<Longrightarrow> fails' s = fails s"
  shows "fst (detectSuspiciousActivity_try fails' now db' user nft ts)
           = fst (detectSuspiciousActivity_try fails now db user nft ts)"
  using assms
  by (simp add: detectSuspiciousActivity_try_def Let_def count_user_rows_def
      count_user_nft_rows_def)

lemma detect_try_not_blocked_reason:
  assumes "checkUserBlock fails now db user = Inr \<lparr>isBlocked = False, block_reason = None\<rparr>"
  shows "fst (detectSuspiciousActivity_try fails now db user nft ts)
           \<noteq> Inr \<lparr>isSuspicious = True, reason = Some (UserBlocked r)\<rparr>"
  using assms by (simp add: detectSuspiciousActivity_try_def Let_def)

text \<open>
  Claim C7. When the lookup of the user's block status raises, \<open>checkUserBlock\<close> returns
  "not blocked" instead of throwing, and \<open>detectSuspiciousActivity\<close> goes on: it does not
  throw, its verdict is never "user blocked", and it is the verdict that the same request
  gets when the lookup works and the user has no block at all.
\<close>

theorem block_lookup_fails_open:
  assumes "fails DBlockQuery"
  shows "checkUserBlock fails now db user = Inr \<lparr>isBlocked = False, block_reason = None\<rparr> \<and>
         (\<exists>v. fst (detectSuspiciousActivity fails now db user nft ts) = Inr v) \<and>
         (\<forall>r. fst (detectSuspiciousActivity fails now db user nft ts)
                \<noteq> Inr \<lparr>isSuspicious = True, reason = Some (UserBlocked r)\<rparr>) \<and>
         fst (detectSuspiciousActivity fails now db user nft ts)
           = fst (detectSuspiciousActivity (fails(DBlockQuery := False)) now
                    (db\<lparr>user_blocks := []\<rparr>) user nft ts)"
proof -
  have open_: "checkUserBlock fails now db user = Inr \<lparr>isBlocked = False, block_reason = None\<rparr>"
    using assms by (simp add: checkUserBlock_query_fails)
  have same: "fst (detectSuspiciousActivity_try (fails(DBlockQuery := False)) now
                     (db\<lparr>user_blocks := []\<rparr>) user nft ts)
                = fst (detectSuspiciousActivity_try fails now db user nft ts)"
    by (rule detect_try_unblocked [OF open_ checkUserBlock_no_rows]) simp_all
  have not_blocked: "\<forall>r. fst (detectSuspiciousActivity fails now db user nft ts)
                \<noteq> Inr \<lparr>isSuspicious = True, reason = Some (UserBlocked r)\<rparr>"
  proof
    fix r
    from detect_try_not_blocked_reason [OF open_, of nft ts r]
    show "fst (detectSuspiciousActivity fails now db user nft ts)
            \<noteq> Inr \<lparr>isSuspicious = True, reason = Some (UserBlocked r)\<rparr>"
      by (cases "fst (detectSuspiciousActivity_try fails now db user nft ts)")
         (simp_all add: detectSuspiciousActivity_def try_catch_def Let_def)
  qed
  have eq: "fst (detectSuspiciousActivity fails now db user nft ts)
           = fst (detectSuspiciousActivity (fails(DBlockQuery := False)) now
                    (db\<lparr>user_blocks := []\<rparr>) user nft ts)"
    using same by (simp add: detectSuspiciousActivity_def Let_def)
  from open_ detect_returns [of fails now db user nft ts] not_blocked eq
  show ?thesis by blast
qed

text \<open>
  The witness: a user with an active block. With a working lookup the user is blocked;
  when the lookup raises, the same user passes the block check and the detector.
\<close>

theorem block_lookup_fails_open_witness:
  "checkUserBlock (\<lambda>s. False) 1000 blocked_db ''EQ_alice''
     = Inr \<lparr>isBlocked = True, block_reason = Some ''abuse''\<rparr> \<and>
   checkUserBlock (\<lambda>s. s = DBlockQuery) 1000 blocked_db ''EQ_alice''
     = Inr \<lparr>isBlocked = False, block_reason = None\<rparr> \<and>
   fst (detectSuspiciousActivity (\<lambda>s. s = DBlockQuery) 1000 blocked_db ''EQ_alice'' ''EQ_nft'' 1000)
     = Inr \<lparr>isSuspicious = False, reason = None\<rparr>"
proof -
  have blocked: "checkUserBlock (\<lambda>s. False) 1000 blocked_db ''EQ_alice''
      = Inr \<lparr>isBlocked = True, block_reason = Some ''abuse''\<rparr>"
    by (simp add: checkUserBlock_def checkUserBlock_try_def try_catch_def active_blocks_def
        blocked_db_def empty_database_def)
  have verdict: "fst (detectSuspiciousActivity ((\<lambda>s. s = DBlockQuery)(DBlockQuery := False)) 1000
        (blocked_db\<lparr>user_blocks := []\<rparr>) ''EQ_alice'' ''EQ_nft'' 1000)
      = Inr \<lparr>isSuspicious = False, reason = None\<rparr>"
    by (simp add: detectSuspiciousActivity_def detectSuspiciousActivity_try_def try_catch_def
        checkUserBlock_def checkUserBlock_try_def active_blocks_def count_user_rows_def
        count_user_nft_rows_def blocked_db_def empty_database_def Let_def)
  from block_lookup_fails_open [of "\<lambda>s. s = DBlockQuery" 1000 blocked_db "''EQ_alice''"
      "''EQ_nft''" 1000]
    blocked verdict
  show ?thesis by simp
qed

lemma filter_same_key_le_one:
  "distinct (map f xs) \<Longrightarrow> length (filter (\<lambda>x. f x = k \<and> P x) xs) \<le> 1"
proof (induction xs)
  case Nil
  then show ?case by simp
next
  case (Cons x xs)
  show ?case
  proof (cases "f x = k")
    case True
    from Cons.prems have "f x \<notin> f ` set xs" by simp
    with True have "\<forall>y \<in> set xs. f y \<noteq> k" by blast
    then have "filter (\<lambda>x. f x = k \<and> P x) xs = []" by (simp add: filter_empty_conv)
    then show ?thesis by simp
  next
    case False
    with Cons show ?thesis by simp
  qed
qed

lemma count_user_nft_rows_le_one:
  assumes "sl_unique db"
  shows "count_user_nft_rows db user nft since \<le> 1"
proof -
  have "length (filter (\<lambda>r. (sl_user_address r, sl_nft_address r) = (user, nft) \<and>
                            sl_last_recorded r > since) (session_listens db)) \<le> 1"
    using assms unfolding sl_unique_def by (rule filter_same_key_le_one)
  then show ?thesis by (simp add: count_user_nft_rows_def conj_assoc)
qed

text \<open>
  Under the uniqueness constraint of \<open>session_listens\<close> the third check of the detector
  cannot fire: the verdict is never "too many listens of one NFT", and no row of severity
  \<open>Medium\<close> is written.
\<close>

lemma same_nft_check_never_fires:
  assumes "sl_unique db"
  shows "fst (detectSuspiciousActivity fails now db user nft ts)
           \<noteq> Inr \<lparr>isSuspicious = True, reason = Some SameNftLimit\<rparr>"
    and "filter (\<lambda>a. sa_severity a = Medium)
           (suspicious_activities (snd (detectSuspiciousActivity fails now db user nft ts)))
         = filter (\<lambda>a. sa_severity a = Medium) (suspicious_activities db)"
proof -
  have le: "\<not> count_user_nft_rows db user nft (now - 60 * 60 * 1000) > 10"
    using count_user_nft_rows_le_one [OF assms, of user nft "now - 60 * 60 * 1000"] by simp
  obtain b where b: "checkUserBlock fails now db user = Inr b"
    using checkUserBlock_returns by blast
  show "fst (detectSuspiciousActivity fails now db user nft ts)
          \<noteq> Inr \<lparr>isSuspicious = True, reason = Some SameNftLimit\<rparr>"
    using le b
    by (simp add: detectSuspiciousActivity_def detectSuspiciousActivity_try_def try_catch_def
        Let_def)
  show "filter (\<lambda>a. sa_severity a = Medium)
          (suspicious_activities (snd (detectSuspiciousActivity fails now db user nft ts)))
        = filter (\<lambda>a. sa_severity a = Medium) (suspicious_activities db)"
    using le b
    by (simp add: detectSuspiciousActivity_def detectSuspiciousActivity_try_def
        logSuspiciousActivity_def Let_def)
qed

section \<open>Properties of the listen ledger\<close>

lemma find_map_keep:
  "(\<And>x. P (f x) = P x) \<Longrightarrow> find P (map f xs) = map_option f (find P xs)"
  by (induction xs) simp_all

lemma find_append_one:
  "find P (xs @ [y]) =
     (case find P xs of Some x \<Rightarrow> Some x | None \<Rightarrow> if P y then Some y else None)"
  by (induction xs) simp_all

lemma find_filter_head:
  "find P xs = (case filter P xs of [] \<Rightarrow> None | x # _ \<Rightarrow> Some x)"
  by (induction xs) simp_all

lemma find_None_list_ex:
  "find P xs = None \<longleftrightarrow> \<not> list_ex P xs"
  by (induction xs) simp_all

lemma find_Some_holds:
  "find P xs = Some x \<Longrightarrow> P x"
  by (induction xs) (simp_all split: if_splits)

lemma last_listen_None:
  "last_listen db user nft = None \<longleftrightarrow> \<not> list_ex (sl_match user nft) (session_listens db)"
  by (simp add: last_listen_def find_None_list_ex [symmetric] find_filter_head split: list.splits)

lemma sl_match_update:
  "sl_match u n (r\<lparr>sl_count := c, sl_last_recorded := t, sl_session_id := s\<rparr>) = sl_match u n r"
  by (simp add: sl_match_def)

lemma find_upsert_session_listen:
  "find (sl_match u n) (upsert_session_listen now user nft collection sid ts rows) =
     (if list_ex (sl_match user nft) rows
      then map_option (\<lambda>r. if sl_match user nft r
                             then r\<lparr>sl_count := sl_count r + 1, sl_last_recorded := ts,
                                    sl_session_id := sid\<rparr>
                             else r)
             (find (sl_match u n) rows)
      else (case find (sl_match u n) rows of
              Some x \<Rightarrow> Some x
            | None \<Rightarrow>
                if u = user \<and> n = nft
                then Some \<lparr>sl_user_address = user, sl_nft_address = nft,
                           sl_collection_address = collection, sl_session_id = sid,
                           sl_count = 1, sl_first_recorded = now, sl_last_recorded = ts\<rparr>
                else None))"
proof (cases "list_ex (sl_match user nft) rows")
  case True
  then show ?thesis
    unfolding upsert_session_listen_def
    by (simp add: find_map_keep sl_match_update)
next
  case False
  then show ?thesis
    unfolding upsert_session_listen_def
    by (auto simp: find_append_one sl_match_def split: option.splits)
qed

lemma count_upsert_session_listen:
  "(case find (sl_match u n) (upsert_session_listen now user nft collection sid ts rows) of
      None \<Rightarrow> 0 | Some r \<Rightarrow> sl_count r)
   = (case find (sl_match u n) rows of None \<Rightarrow> 0 | Some r \<Rightarrow> sl_count r)
     + (if u = user \<and> n = nft then 1 else 0)"
proof (cases "find (sl_match u n) rows")
  case None
  then have no: "\<not> list_ex (sl_match u n) rows" by (simp add: find_None_list_ex)
  show ?thesis
  proof (cases "u = user \<and> n = nft")
    case True
    with no None show ?thesis by (simp add: find_upsert_session_listen)
  next
    case False
    with None show ?thesis by (auto simp: find_upsert_session_listen)
  qed
next
  case (Some r)
  then have m: "sl_match u n r" by (rule find_Some_holds)
  have ex: "list_ex (sl_match u n) rows"
    using Some find_None_list_ex [of "sl_match u n" rows] by simp
  show ?thesis
  proof (cases "u = user \<and> n = nft")
    case True
    with Some m ex show ?thesis by (simp add: find_upsert_session_listen)
  next
    case False
    with m have "\<not> sl_match user nft r" by (auto simp: sl_match_def)
    with Some False show ?thesis by (auto simp: find_upsert_session_listen)
  qed
qed

lemma find_upsert_listens:
  "find (\<lambda>r. l_nft_address r = n) (upsert_listens now nft collection rows) =
     (if list_ex (\<lambda>r. l_nft_address r = nft) rows
      then map_option (\<lambda>r. if l_nft_address r = nft
                             then r\<lparr>l_count := l_count r + 1, l_last_updated := now\<rparr> else r)
             (find (\<lambda>r. l_nft_address r = n) rows)
      else (case find (\<lambda>r. l_nft_address r = n) rows of
              Some x \<Rightarrow> Some x
            | None \<Rightarrow>
                if n = nft
                then Some \<lparr>l_nft_address = nft, l_collection_address = collection, l_count = 1,
                           l_last_updated = now\<rparr>
                else None))"
proof (cases "list_ex (\<lambda>r. l_nft_address r = nft) rows")
  case True
  have "find (\<lambda>r. l_nft_address r = n)
          (map (\<lambda>r. if l_nft_address r = nft
                     then r\<lparr>l_count := l_count r + 1, l_last_updated := now\<rparr> else r) rows)
        = map_option (\<lambda>r. if l_nft_address r = nft
                     then r\<lparr>l_count := l_count r + 1, l_last_updated := now\<rparr> else r)
            (find (\<lambda>r. l_nft_address r = n) rows)"
    by (rule find_map_keep) simp
  with True show ?thesis by (simp add: upsert_listens_def)
next
  case False
  then show ?thesis
    by (auto simp: upsert_listens_def find_append_one split: option.splits)
qed

lemma count_upsert_listens:
  "(case find (\<lambda>r. l_nft_address r = n) (upsert_listens now nft collection rows) of
      None \<Rightarrow> 0 | Some r \<Rightarrow> l_count r)
   = (case find (\<lambda>r. l_nft_address r = n) rows of None \<Rightarrow> 0 | Some r \<Rightarrow> l_count r)
     + (if n = nft then 1 else 0)"
proof (cases "find (\<lambda>r. l_nft_address r = n) rows")
  case None
  then have no: "\<not> list_ex (\<lambda>r. l_nft_address r = n) rows" by (simp add: find_None_list_ex)
  show ?thesis
  proof (cases "n = nft")
    case True
    with no None show ?thesis by (simp add: find_upsert_listens)
  next
    case False
    with None show ?thesis by (simp add: find_upsert_listens)
  qed
next
  case (Some r)
  then have m: "l_nft_address r = n" by (rule find_Some_holds)
  have ex: "list_ex (\<lambda>r. l_nft_address r = n) rows"
    using Some find_None_list_ex [of "\<lambda>r. l_nft_address r = n" rows] by simp
  show ?thesis
  proof (cases "n = nft")
    case True
    with Some m ex show ?thesis by (simp add: find_upsert_listens)
  next
    case False
    with Some m show ?thesis by (simp add: find_upsert_listens)
  qed
qed


lemma fold_latest_ge:
  "sl_last_recorded b \<le>
     sl_last_recorded
       (fold (\<lambda>x best. if sl_last_recorded x > sl_last_recorded best then x else best) rs b)"
proof (induction rs arbitrary: b)
  case Nil
  then show ?case by simp
next
  case (Cons r rs)
  let ?b = "if sl_last_recorded r > sl_last_recorded b then r else b"
  have "sl_last_recorded b \<le> sl_last_recorded ?b" by simp
  also have "\<dots> \<le> sl_last_recorded
       (fold (\<lambda>x best. if sl_last_recorded x > sl_last_recorded best then x else best) rs ?b)"
    by (rule Cons.IH)
  finally show ?case by simp
qed

lemma last_listen_latest:
  assumes "user_last_recorded db user nft = Some t"
  shows "\<exists>l. last_listen db user nft = Some l \<and> t \<le> sl_last_recorded l"
proof -
  from assms obtain r where r: "find (sl_match user nft) (session_listens db) = Some r"
    and t: "t = sl_last_recorded r"
    by (auto simp: user_last_recorded_def)
  from r obtain rs where "filter (sl_match user nft) (session_listens db) = r # rs"
    by (auto simp: find_filter_head split: list.splits)
  then show ?thesis
    using fold_latest_ge [of r rs] t by (simp add: last_listen_def)
qed

lemma recordSessionListen_committed:
  assumes "recordSessionListen fails now session nft collection ts db = (Inr k, db')"
  shows "db' = db
           \<lparr>session_listens :=
              upsert_session_listen now (userAddress session) nft collection
                (sessionId session) ts (session_listens db),
            nfts := upsert_nft now nft collection (nfts db),
            listens := upsert_listens now nft collection (listens db)\<rparr>"
    and "\<And>l. last_listen db (userAddress session) nft = Some l \<Longrightarrow>
              sl_last_recorded l + 30000 \<le> ts"
  using assms
  by (auto simp: recordSessionListen_def Let_def split: if_splits option.splits)

lemma committed_counts:
  assumes "recordSessionListen fails now session nft collection ts db = (Inr k, db')"
  shows "user_listen_count db' u n =
           user_listen_count db u n + (if u = userAddress session \<and> n = nft then 1 else 0)"
    and "nft_listen_count db' n = nft_listen_count db n + (if n = nft then 1 else 0)"
  unfolding recordSessionListen_committed(1) [OF assms] user_listen_count_def
    nft_listen_count_def
  by (simp_all add: count_upsert_session_listen count_upsert_listens)

lemma committed_last_recorded:
  assumes "recordSessionListen fails now session nft collection ts db = (Inr k, db')"
    and "user_last_recorded db u n = Some t"
  shows "\<exists>t'. user_last_recorded db' u n = Some t' \<and>
              t + (if u = userAddress session \<and> n = nft then 30000 else 0) \<le> t'"
proof -
  from assms(2) obtain r where r: "find (sl_match u n) (session_listens db) = Some r"
    and t: "t = sl_last_recorded r"
    by (auto simp: user_last_recorded_def)
  have m: "sl_match u n r" using r by (rule find_Some_holds)
  have ex: "list_ex (sl_match u n) (session_listens db)"
    using r find_None_list_ex [of "sl_match u n" "session_listens db"] by simp
  have db': "user_last_recorded db' u n =
      map_option sl_last_recorded
        (find (sl_match u n)
           (upsert_session_listen now (userAddress session) nft collection
              (sessionId session) ts (session_listens db)))"
    unfolding recordSessionListen_committed(1) [OF assms(1)] user_last_recorded_def by simp
  show ?thesis
  proof (cases "u = userAddress session \<and> n = nft")
    case True
    from last_listen_latest [OF assms(2)] obtain l
      where "last_listen db u n = Some l" and "t \<le> sl_last_recorded l" by blast
    with recordSessionListen_committed(2) [OF assms(1), of l] True have "t + 30000 \<le> ts"
      by simp
    moreover have "user_last_recorded db' u n = Some ts"
      unfolding db' using True r m ex by (simp add: find_upsert_session_listen)
    ultimately show ?thesis using True by simp
  next
    case False
    with m have "\<not> sl_match (userAddress session) nft r" by (auto simp: sl_match_def)
    then have "user_last_recorded db' u n = Some t"
      using r t by (simp add: db' find_upsert_session_listen)
    with False show ?thesis by auto
  qed
qed

lemma record_all_counts:
  assumes "record_all cs db = Some db'"
  shows "user_listen_count db' u n =
           user_listen_count db u n +
           int (length (filter (\<lambda>c. userAddress (lc_session c) = u \<and> lc_nft c = n) cs))"
    and "nft_listen_count db' n =
           nft_listen_count db n + int (length (filter (\<lambda>c. lc_nft c = n) cs))"
  using assms
proof (induction cs arbitrary: db)
  case Nil
  { case 1 then show ?case by simp }
  { case 2 then show ?case by simp }
next
  case (Cons c cs)
  { case 1
    then obtain k db1 where step: "run_call c db = (Inr k, db1)"
      and rest: "record_all cs db1 = Some db'"
      by (auto split: prod.splits sum.splits)
    from step have "user_listen_count db1 u n =
        user_listen_count db u n + (if u = userAddress (lc_session c) \<and> lc_nft c = n then 1 else 0)"
      unfolding run_call_def by (auto simp: committed_counts(1))
    with Cons.IH(1) [OF rest] show ?case by simp }
  { case 2
    then obtain k db1 where step: "run_call c db = (Inr k, db1)"
      and rest: "record_all cs db1 = Some db'"
      by (auto split: prod.splits sum.splits)
    from step have "nft_listen_count db1 n =
        nft_listen_count db n + (if lc_nft c = n then 1 else 0)"
      unfolding run_call_def by (auto simp: committed_counts(2))
    with Cons.IH(2) [OF rest] show ?case by simp }
qed

lemma record_all_last_recorded:
  assumes "record_all cs db = Some db'" and "user_last_recorded db u n = Some t"
  shows "\<exists>t'. user_last_recorded db' u n = Some t' \<and>
           t + 30000 * int (length (filter (\<lambda>c. userAddress (lc_session c) = u \<and> lc_nft c = n) cs))
             \<le> t'"
  using assms
proof (induction cs arbitrary: db t)
  case Nil
  then show ?case by simp
next
  case (Cons c cs)
  from Cons.prems(1) obtain k db1 where step: "run_call c db = (Inr k, db1)"
    and rest: "record_all cs db1 = Some db'"
    by (auto split: prod.splits sum.splits)
  from committed_last_recorded [OF step [unfolded run_call_def] Cons.prems(2)]
  obtain t1 where t1: "user_last_recorded db1 u n = Some t1"
    and le: "t + (if u = userAddress (lc_session c) \<and> n = lc_nft c then 30000 else 0) \<le> t1"
    by blast
  from Cons.IH [OF rest t1] obtain t' where "user_last_recorded db' u n = Some t'"
    and "t1 + 30000 * int (length (filter (\<lambda>c. userAddress (lc_session c) = u \<and> lc_nft c = n) cs))
           \<le> t'"
    by blast
  with le show ?case by (auto split: if_splits)
qed

lemma detect_keeps_tables:
  "session_listens (snd (detectSuspiciousActivity fails now db user nft ts)) = session_listens db"
  "listens (snd (detectSuspiciousActivity fails now db user nft ts)) = listens db"
  by (auto simp: detectSuspiciousActivity_def detectSuspiciousActivity_try_def Let_def
      logSuspiciousActivity_def split: sum.splits)

lemma recordSessionListen_rejected:
  "recordSessionListen fails now session nft collection ts db = (Inl e, db') \<Longrightarrow> db' = db"
  by (auto simp: recordSessionListen_def Let_def split: if_splits)

text \<open>
  Whatever makes the whole handler answer with an error, the two counter tables are the
  ones before the request.
\<close>

lemma session_listens_route_rejected:
  assumes "session_listens_route al nft_info whitelist dfails tfails now authHeader body s
             = (Inl e, st', db')"
  shows "session_listens db' = session_listens (snd s) \<and> listens db' = listens (snd s)"
proof -
  have tables:
    "\<And>u n t v db1. detectSuspiciousActivity dfails now (snd s) u n t = (v, db1) \<Longrightarrow>
       session_listens db1 = session_listens (snd s) \<and> listens db1 = listens (snd s)"
    using detect_keeps_tables by (metis snd_conv)
  show ?thesis
    using assms
    by (auto simp: session_listens_route_def split: prod.splits sum.splits if_splits
        option.splits dest!: tables recordSessionListen_rejected)
qed

text \<open>
  The ledger keeps \<open>session_listens\<close> unique in (user, nft), so in every store that
  committed listens have built from the empty one the per-NFT check of the detector is
  out of reach.
\<close>

lemma upsert_session_listen_keys:
  assumes "distinct (map (\<lambda>r. (sl_user_address r, sl_nft_address r)) rows)"
  shows "distinct (map (\<lambda>r. (sl_user_address r, sl_nft_address r))
           (upsert_session_listen now user nft collection sid ts rows))"
proof (cases "list_ex (sl_match user nft) rows")
  case True
  have keys: "map (\<lambda>r. (sl_user_address r, sl_nft_address r))
          (map (\<lambda>r. if sl_match user nft r
                     then r\<lparr>sl_count := sl_count r + 1, sl_last_recorded := ts,
                            sl_session_id := sid\<rparr>
                     else r) rows)
        = map (\<lambda>r. (sl_user_address r, sl_nft_address r)) rows"
    by (induction rows) simp_all
  have eq: "upsert_session_listen now user nft collection sid ts rows
        = map (\<lambda>r. if sl_match user nft r
                     then r\<lparr>sl_count := sl_count r + 1, sl_last_recorded := ts,
                            sl_session_id := sid\<rparr>
                     else r) rows"
    using True by (simp add: upsert_session_listen_def)
  show ?thesis unfolding eq keys by (rule assms)
next
  case False
  then have "(user, nft) \<notin> set (map (\<lambda>r. (sl_user_address r, sl_nft_address r)) rows)"
    by (auto simp: list_ex_iff sl_match_def)
  with False assms show ?thesis by (simp add: upsert_session_listen_def)
qed

lemma recordSessionListen_unique:
  assumes "sl_unique db"
  shows "sl_unique (snd (recordSessionListen fails now session nft collection ts db))"
  using assms upsert_session_listen_keys [of "session_listens db"]
  by (simp add: recordSessionListen_def sl_unique_def Let_def)

lemma record_all_unique:
  "record_all cs db = Some db' \<Longrightarrow> sl_unique db \<Longrightarrow> sl_unique db'"
proof (induction cs arbitrary: db)
  case Nil
  then show ?case by simp
next
  case (Cons c cs)
  from Cons.prems(1) obtain k db1 where step: "run_call c db = (Inr k, db1)"
    and rest: "record_all cs db1 = Some db'"
    by (auto split: prod.splits sum.splits)
  from step have "db1 = snd (run_call c db)" by simp
  with Cons.prems(2) have "sl_unique db1"
    unfolding run_call_def by (simp add: recordSessionListen_unique)
  with Cons.IH [OF rest] show ?case .
qed

lemma sl_unique_empty: "sl_unique empty_database"
  by (simp add: sl_unique_def empty_database_def)

lemma same_nft_limit_unreachable:
  assumes "record_all cs empty_database = Some db"
  shows "fst (detectSuspiciousActivity fails now db user nft ts)
           \<noteq> Inr \<lparr>isSuspicious = True, reason = Some SameNftLimit\<rparr>"
  by (rule same_nft_check_never_fires(1)) (rule record_all_unique [OF assms sl_unique_empty])

lemma eleven_listens_run:
  "record_all eleven_listens empty_database = Some db_after_eleven"
  by code_simp

lemma two_more_listens_run:
  "record_all [demo_listen 11, demo_listen 12] db_after_eleven = Some db_after_thirteen"
  by code_simp

text \<open>
  Claim C5. A call whose timestamp is less than 30 seconds after the most recent record of
  the (user, nft) pair is rejected and the store is left as it was: the per-user count and
  the aggregate count of every pair and NFT are unchanged. The answer is "too frequent"
  (status 429) unless a statement up to the handler's own \<open>ROLLBACK\<close> fails, which is
  status 500.
\<close>

theorem listen_within_30s_rejected:
  assumes "last_listen db (userAddress session) nft = Some lastListen"
    and "ts - sl_last_recorded lastListen < 30000"
  shows "recordSessionListen fails now session nft collection ts db
           = (Inl (if fails TConnect \<or> fails TBegin \<or> fails TSelectLast \<or>
                      fails TRollbackTooFrequent
                   then ListenServerError else TooFrequent), db) \<and>
         user_listen_count
           (snd (recordSessionListen fails now session nft collection ts db)) u n
           = user_listen_count db u n \<and>
         nft_listen_count
           (snd (recordSessionListen fails now session nft collection ts db)) n
           = nft_listen_count db n"
proof -
  have "recordSessionListen fails now session nft collection ts db
          = (Inl (if fails TConnect \<or> fails TBegin \<or> fails TSelectLast \<or>
                     fails TRollbackTooFrequent
                  then ListenServerError else TooFrequent), db)"
    using assms by (simp add: recordSessionListen_def)
  then show ?thesis by simp
qed

text \<open>
  The witness: after the eleventh listen at 1300000, a listen of the same NFT by the same
  user stamped 10 seconds later is refused, with the counts still at 11.
\<close>

theorem listen_within_30s_rejected_witness:
  "last_listen db_after_eleven ''EQ_alice'' ''EQ_nft''
     = Some \<lparr>sl_user_address = ''EQ_alice'', sl_nft_address = ''EQ_nft'',
             sl_collection_address = ''EQ_col'', sl_session_id = ''tok1'', sl_count = 11,
             sl_first_recorded = 1000000, sl_last_recorded = 1300000\<rparr> \<and>
   recordSessionListen (\<lambda>s. False) 1310000 demo_session ''EQ_nft'' ''EQ_col'' 1310000
     db_after_eleven = (Inl TooFrequent, db_after_eleven) \<and>
   user_listen_count db_after_eleven ''EQ_alice'' ''EQ_nft'' = 11 \<and>
   nft_listen_count db_after_eleven ''EQ_nft'' = 11"
proof -
  let ?row = "\<lparr>sl_user_address = ''EQ_alice'', sl_nft_address = ''EQ_nft'',
             sl_collection_address = ''EQ_col'', sl_session_id = ''tok1'', sl_count = 11,
             sl_first_recorded = 1000000, sl_last_recorded = 1300000\<rparr>"
  have addr: "userAddress demo_session = ''EQ_alice''"
    by (simp add: demo_session_def)
  have last: "last_listen db_after_eleven (userAddress demo_session) ''EQ_nft'' = Some ?row"
    by (simp add: last_listen_def db_after_eleven_def empty_database_def sl_match_def addr)
  have close: "1310000 - sl_last_recorded ?row < 30000"
    by simp
  have counts: "user_listen_count db_after_eleven ''EQ_alice'' ''EQ_nft'' = 11"
    "nft_listen_count db_after_eleven ''EQ_nft'' = 11"
    by (simp_all add: user_listen_count_def nft_listen_count_def db_after_eleven_def
        empty_database_def sl_match_def)
  from listen_within_30s_rejected [OF last close, of "\<lambda>s. False" 1310000 "''EQ_col''"]
    last counts addr
  show ?thesis by simp
qed

text \<open>
  Claim C10. Over any sequence of committed listen transactions, the count of a (user, nft)
  pair grows by exactly the number of calls for that pair and the aggregate count of an NFT
  by exactly the number of calls for that NFT (a missing row counts as 0), so each call
  adds 1 to each and no count decreases; and the last-recorded time of a row that exists
  moves forward by at least 30 seconds with every call for its pair.
\<close>

theorem committed_listens_only_increase:
  assumes "record_all cs db = Some db'"
  shows "user_listen_count db' u n =
           user_listen_count db u n +
           int (length (filter (\<lambda>c. userAddress (lc_session c) = u \<and> lc_nft c = n) cs)) \<and>
         nft_listen_count db' n =
           nft_listen_count db n + int (length (filter (\<lambda>c. lc_nft c = n) cs)) \<and>
         user_listen_count db u n \<le> user_listen_count db' u n \<and>
         nft_listen_count db n \<le> nft_listen_count db' n \<and>
         (\<forall>t. user_last_recorded db u n = Some t \<longrightarrow>
              (\<exists>t'. user_last_recorded db' u n = Some t' \<and>
                    t + 30000 * int (length (filter (\<lambda>c. userAddress (lc_session c) = u \<and>
                                                          lc_nft c = n) cs)) \<le> t'))"
proof -
  note counts = record_all_counts(1) [OF assms, of u n] record_all_counts(2) [OF assms, of n]
  have last: "\<forall>t. user_last_recorded db u n = Some t \<longrightarrow>
              (\<exists>t'. user_last_recorded db' u n = Some t' \<and>
                    t + 30000 * int (length (filter (\<lambda>c. userAddress (lc_session c) = u \<and>
                                                          lc_nft c = n) cs)) \<le> t')"
    using record_all_last_recorded [OF assms] by blast
  from counts last show ?thesis by simp
qed

text \<open>
  The witness: two more listens, at 1330000 and 1360000, after the eleven of the example.
\<close>

theorem committed_listens_only_increase_witness:
  "record_all [demo_listen 11, demo_listen 12] db_after_eleven = Some db_after_thirteen \<and>
   user_listen_count db_after_eleven ''EQ_alice'' ''EQ_nft'' = 11 \<and>
   user_listen_count db_after_thirteen ''EQ_alice'' ''EQ_nft'' = 11 + 2 \<and>
   nft_listen_count db_after_eleven ''EQ_nft'' = 11 \<and>
   nft_listen_count db_after_thirteen ''EQ_nft'' = 11 + 2 \<and>
   user_last_recorded db_after_eleven ''EQ_alice'' ''EQ_nft'' = Some 1300000 \<and>
   user_last_recorded db_after_thirteen ''EQ_alice'' ''EQ_nft'' = Some 1360000"
proof -
  have before: "user_listen_count db_after_eleven ''EQ_alice'' ''EQ_nft'' = 11"
    "nft_listen_count db_after_eleven ''EQ_nft'' = 11"
    "user_last_recorded db_after_eleven ''EQ_alice'' ''EQ_nft'' = Some 1300000"
    by (simp_all add: user_listen_count_def nft_listen_count_def user_last_recorded_def
        db_after_eleven_def empty_database_def sl_match_def)
  have after: "user_last_recorded db_after_thirteen ''EQ_alice'' ''EQ_nft'' = Some 1360000"
    by (simp add: user_last_recorded_def db_after_thirteen_def empty_database_def sl_match_def)
  have calls: "length (filter (\<lambda>c. userAddress (lc_session c) = ''EQ_alice'' \<and>
                                   lc_nft c = ''EQ_nft'') [demo_listen 11, demo_listen 12]) = 2"
    "length (filter (\<lambda>c. lc_nft c = ''EQ_nft'') [demo_listen 11, demo_listen 12]) = 2"
    by (simp_all add: demo_listen_def demo_session_def)
  from committed_listens_only_increase [OF two_more_listens_run, of "''EQ_alice''" "''EQ_nft''"]
    two_more_listens_run before after calls
  show ?thesis by simp
qed

text \<open>
  Claim C1 at a concrete input. A user listens to one NFT eleven times within five minutes;
  every call commits, and the row of the pair has the count 11. The detector, asked right
  after the eleventh listen, counts the rows of the pair whose last listen is within the
  hour: there is one row, 1 is not above 10, so the verdict is "not suspicious" and no
  audit record of any severity is written.
\<close>

theorem eleven_listens_not_flagged:
  "record_all eleven_listens empty_database = Some db_after_eleven \<and>
   user_listen_count db_after_eleven ''EQ_alice'' ''EQ_nft'' = 11 \<and>
   count_user_nft_rows db_after_eleven ''EQ_alice'' ''EQ_nft'' (1300000 - 60 * 60 * 1000) = 1 \<and>
   detectSuspiciousActivity (\<lambda>s. False) 1300000 db_after_eleven ''EQ_alice'' ''EQ_nft'' 1300000
     = (Inr \<lparr>isSuspicious = False, reason = None\<rparr>, db_after_eleven) \<and>
   suspicious_activities db_after_eleven = []"
proof -
  have count: "user_listen_count db_after_eleven ''EQ_alice'' ''EQ_nft'' = 11"
    by (simp add: user_listen_count_def db_after_eleven_def empty_database_def sl_match_def)
  have rows: "count_user_nft_rows db_after_eleven ''EQ_alice'' ''EQ_nft''
                (1300000 - 60 * 60 * 1000) = 1"
    by (simp add: count_user_nft_rows_def db_after_eleven_def empty_database_def)
  have verdict: "detectSuspiciousActivity (\<lambda>s. False) 1300000 db_after_eleven ''EQ_alice''
        ''EQ_nft'' 1300000 = (Inr \<lparr>isSuspicious = False, reason = None\<rparr>, db_after_eleven)"
    by (simp add: detectSuspiciousActivity_def detectSuspiciousActivity_try_def try_catch_def
        checkUserBlock_def checkUserBlock_try_def active_blocks_def count_user_rows_def
        count_user_nft_rows_def db_after_eleven_def empty_database_def Let_def)
  have none: "suspicious_activities db_after_eleven = []"
    by (simp add: db_after_eleven_def empty_database_def)
  from eleven_listens_run count rows verdict none show ?thesis by simp
qed

section \<open>Properties of API key issuance\<close>





end
